theory Spec2Isabelle
  imports Main
begin

section \<open>Data model\<close>

text \<open>
  The block state engine of \<^verbatim>\<open>packages/core-state/src/block-state.ts\<close>.
  Arbitrary-precision amounts (\<^verbatim>\<open>Utils.BigNumber\<close>) are \<^typ>\<open>int\<close>. The production
  counter is a JavaScript number, an IEEE 754 double, that holds an integer and is only
  incremented and decremented: it is the \<^typ>\<open>int\<close> that the double denotes, and
  \<^verbatim>\<open>++\<close> and \<^verbatim>\<open>--\<close> round the exact sum to the nearest double, as the
  addition of doubles does.
\<close>

datatype TransactionType =
  Transfer | SecondSignature | DelegateRegistration | Vote | MultiSignature | Ipfs
  | MultiPayment | DelegateResignation | HtlcLock | HtlcClaim | HtlcRefund

datatype TransactionTypeGroup = Test | Core | Reserved

record IMultiPaymentItem =
  item_recipientId :: string
  item_amount :: int

text \<open>
  A transaction (\<^verbatim>\<open>ITransaction\<close> with its \<^verbatim>\<open>data\<close>). The three optional
  \<^verbatim>\<open>asset\<close> members the engine reads are fields of their own:
  \<^verbatim>\<open>asset?.votes\<close>, \<^verbatim>\<open>asset?.claim\<close> (its \<^verbatim>\<open>lockTransactionId\<close>) and
  \<^verbatim>\<open>asset?.payments\<close>; each is \<open>None\<close> when the asset or the member is undefined.
\<close>

record ITransactionData =
  type :: TransactionType
  typeGroup :: TransactionTypeGroup
  senderPublicKey :: "string option"
  recipientId :: "string option"
  amount :: int
  fee :: int
  asset_votes :: "string list option"
  asset_claim :: "string option"
  asset_payments :: "IMultiPaymentItem list option"

record IBlockData =
  block_id :: string
  generatorPublicKey :: string
  height :: int
  reward :: int
  totalFee :: int

record IBlock =
  data :: IBlockData
  transactions :: "ITransactionData list"

text \<open>
  Modelled from the spec: the wallet class is not among the sources. Following the data
  model of the specification, the attribute bag is a fixed set of optional fields:
  \<^verbatim>\<open>vote\<close>, \<^verbatim>\<open>delegate.voteBalance\<close>, the remaining \<^verbatim>\<open>delegate\<close> statistics
  (present together on a validator, absent together otherwise) and \<^verbatim>\<open>htlc.locks\<close>,
  which maps a lock transaction id to the locked amount recorded on the lock transaction
  (the only member of the lock record the engine reads).
\<close>

record WalletDelegateAttributes =
  producedBlocks :: int
  forgedFees :: int
  forgedRewards :: int
  lastBlock :: "IBlockData option"

record Wallet =
  address :: string
  publicKey :: "string option"
  balance :: int
  vote :: "string option"
  voteBalance :: "int option"
  delegate :: "WalletDelegateAttributes option"
  htlc_locks :: "(string \<times> int) list"

text \<open>
  Modelled from the spec: the wallet repository is not among the sources. Wallet objects
  are shared and mutated in place, so the model keeps a store of wallet objects, keyed by
  the address that identifies an account, and the indices of the specification: the
  primary index by address, the secondary index by public key and the index from a lock
  transaction id to the owning account. A reference to a wallet is its address; accounts
  are never deleted, so reading through a reference reads the store. \<open>faults\<close> is the
  sink of the fault reporter (\<^verbatim>\<open>app.terminate\<close>).
\<close>

record ledger =
  wallets :: "string \<Rightarrow> Wallet"
  addresses :: "string set"
  publicKeys :: "string \<rightharpoonup> string"
  locks :: "string \<rightharpoonup> string"
  faults :: "string list"

datatype error = AccountNotFound | AssertionError | TypeError | HandlerError string

text \<open>
  A call either completes with the new ledger or throws; a throw keeps the ledger as the
  call left it, since mutations made before the throw stay.
\<close>

datatype outcome = Done ledger | Threw error ledger

text \<open>
  The transaction effect handlers and the address derivation are external; they are
  parameters of the engine. The registry returns a handler for every transaction.
\<close>

record Handler =
  handler_apply :: "ITransactionData \<Rightarrow> ledger \<Rightarrow> outcome"
  handler_revert :: "ITransactionData \<Rightarrow> ledger \<Rightarrow> outcome"

record env =
  fromPublicKey :: "string \<Rightarrow> string"
  registry :: "ITransactionData \<Rightarrow> Handler"

section \<open>Wallet repository\<close>

text \<open>
  Modelled from the spec: the operations of the wallet repository, which is not among the
  sources. \<open>has\<close> answers for an address or a public key; the \<open>find\<close>
  operations fail with \<open>AccountNotFound\<close> on an absent account;
  \<open>createWallet\<close> returns the existing account of the address or creates a
  zero-balance account and inserts it into the address index; \<open>reindex\<close> enters
  the account into every index under its address, its public key and its lock ids.
  \<open>terminate\<close> hands the reason to the fault reporter and returns.
\<close>

definition has :: "ledger \<Rightarrow> string \<Rightarrow> bool" where
  "has s k = (k \<in> addresses s \<or> publicKeys s k \<noteq> None)"

definition hasByAddress :: "ledger \<Rightarrow> string \<Rightarrow> bool" where
  "hasByAddress s a = (a \<in> addresses s)"

definition findByAddress :: "ledger \<Rightarrow> string \<Rightarrow> error + string" where
  "findByAddress s a = (if a \<in> addresses s then Inr a else Inl AccountNotFound)"

definition findByPublicKey :: "ledger \<Rightarrow> string \<Rightarrow> error + string" where
  "findByPublicKey s pk =
     (case publicKeys s pk of None \<Rightarrow> Inl AccountNotFound | Some a \<Rightarrow> Inr a)"

definition findByIndexLocks :: "ledger \<Rightarrow> string \<Rightarrow> error + string" where
  "findByIndexLocks s lockId =
     (case locks s lockId of None \<Rightarrow> Inl AccountNotFound | Some a \<Rightarrow> Inr a)"

definition newWallet :: "string \<Rightarrow> Wallet" where
  "newWallet a =
     \<lparr>address = a, publicKey = None, balance = 0, vote = None, voteBalance = None,
      delegate = None, htlc_locks = []\<rparr>"

definition createWallet :: "ledger \<Rightarrow> string \<Rightarrow> string \<times> ledger" where
  "createWallet s a =
     (if a \<in> addresses s then (a, s)
      else (a, s\<lparr>wallets := (wallets s)(a := newWallet a), addresses := insert a (addresses s)\<rparr>))"

definition reindex :: "ledger \<Rightarrow> string \<Rightarrow> ledger" where
  "reindex s a =
     (let w = wallets s a in
      s\<lparr>addresses := insert a (addresses s),
        publicKeys := (case publicKey w of None \<Rightarrow> publicKeys s
                                         | Some pk \<Rightarrow> (publicKeys s)(pk \<mapsto> a)),
        locks := foldr (\<lambda>kv m. m(fst kv \<mapsto> a)) (htlc_locks w) (locks s)\<rparr>)"

definition terminate :: "ledger \<Rightarrow> string \<Rightarrow> ledger" where
  "terminate s reason = s\<lparr>faults := faults s @ [reason]\<rparr>"

section \<open>Wallet attributes\<close>

text \<open>
  Modelled from the spec: the attribute accessors of the wallet class, which is not among
  the sources. \<open>hasVoted\<close> is the presence of the \<^verbatim>\<open>vote\<close> attribute;
  reading \<^verbatim>\<open>delegate.voteBalance\<close> with a default gives the default when the
  attribute is absent; setting it creates it. An attribute read without a default is
  undefined when absent, and the first use of the undefined value throws a
  \<open>TypeError\<close>.
\<close>

definition hasVoted :: "Wallet \<Rightarrow> bool" where
  "hasVoted w = (vote w \<noteq> None)"

text \<open>\<^verbatim>\<open>getAttribute("delegate.voteBalance", Utils.BigNumber.ZERO)\<close>\<close>

definition getVoteBalance :: "ledger \<Rightarrow> string \<Rightarrow> int" where
  "getVoteBalance s a = (case voteBalance (wallets s a) of None \<Rightarrow> 0 | Some v \<Rightarrow> v)"

text \<open>\<^verbatim>\<open>setAttribute("delegate.voteBalance", v)\<close>\<close>

definition setVoteBalance :: "ledger \<Rightarrow> string \<Rightarrow> int \<Rightarrow> ledger" where
  "setVoteBalance s a v = s\<lparr>wallets := (wallets s)(a := (wallets s a)\<lparr>voteBalance := Some v\<rparr>)\<rparr>"

section \<open>Vote-balance updates\<close>

definition andThen :: "outcome \<Rightarrow> (ledger \<Rightarrow> outcome) \<Rightarrow> outcome" where
  "andThen r f = (case r of Done s \<Rightarrow> f s | Threw e s \<Rightarrow> Threw e s)"

definition startsWithPlus :: "string \<Rightarrow> bool" where
  "startsWithPlus v = (case v of [] \<Rightarrow> False | c # _ \<Rightarrow> c = CHR ''+'')"

text \<open>The vote branch of \<^verbatim>\<open>updateVoteBalances\<close> (lines 267 to 287).\<close>

definition updateVoteTarget ::
  "ledger \<Rightarrow> string \<Rightarrow> ITransactionData \<Rightarrow> bool \<Rightarrow> outcome" where
  "updateVoteTarget s sender t revert =
     (case asset_votes t of
        None \<Rightarrow> Threw AssertionError s
      | Some [] \<Rightarrow> Threw TypeError s
      | Some (v # _) \<Rightarrow>
          (case findByPublicKey s (drop 1 v) of
             Inl e \<Rightarrow> Threw e s
           | Inr d \<Rightarrow>
               (let vb = getVoteBalance s d; b = balance (wallets s sender) in
                Done (setVoteBalance s d
                  (if startsWithPlus v
                   then (if revert then vb - (b - fee t) else vb + b)
                   else (if revert then vb + b else vb - (b + fee t)))))))"

text \<open>The vote balance of the sender's delegate (lines 289 to 335).\<close>

definition updateSenderDelegate ::
  "ledger \<Rightarrow> string \<Rightarrow> ITransactionData \<Rightarrow> int option \<Rightarrow> bool \<Rightarrow> outcome" where
  "updateSenderDelegate s sender t lockTransaction revert =
     (case vote (wallets s sender) of
        None \<Rightarrow> Done s
      | Some pk \<Rightarrow>
          (case findByPublicKey s pk of
             Inl e \<Rightarrow> Threw e s
           | Inr d \<Rightarrow>
               (case (if type t = MultiPayment \<and> typeGroup t = Core
                      then (case asset_payments t of
                              None \<Rightarrow> None
                            | Some ps \<Rightarrow> Some (fold (\<lambda>curr prev. prev + item_amount curr) ps 0))
                      else Some (amount t)) of
                  None \<Rightarrow> Threw AssertionError s
                | Some amnt \<Rightarrow>
                    (let total = amnt + fee t; vb = getVoteBalance s d in
                     if type t = HtlcLock \<and> typeGroup t = Core
                     then Done (setVoteBalance s d (if revert then vb + fee t else vb - fee t))
                     else if type t = HtlcClaim \<and> typeGroup t = Core
                     then (case lockTransaction of
                             None \<Rightarrow> Threw TypeError s
                           | Some la \<Rightarrow>
                               Done (setVoteBalance s d
                                 (if revert then vb + fee t - la else vb - fee t + la)))
                     else Done (setVoteBalance s d
                                 (if revert then vb + total else vb - total))))))"

text \<open>The vote balance of the lock owner's delegate on a claim (lines 337 to 356).\<close>

definition updateLockWalletDelegate ::
  "ledger \<Rightarrow> ITransactionData \<Rightarrow> string option \<Rightarrow> int option \<Rightarrow> bool \<Rightarrow> outcome" where
  "updateLockWalletDelegate s t lockWallet lockTransaction revert =
     (if type t = HtlcClaim \<and> typeGroup t = Core
      then (case lockWallet of
              None \<Rightarrow> Threw TypeError s
            | Some lw \<Rightarrow>
                (case vote (wallets s lw) of
                   None \<Rightarrow> Done s
                 | Some pk \<Rightarrow>
                     (case findByPublicKey s pk of
                        Inl e \<Rightarrow> Threw e s
                      | Inr d \<Rightarrow>
                          (case lockTransaction of
                             None \<Rightarrow> Threw TypeError s
                           | Some la \<Rightarrow>
                               (let vb = getVoteBalance s d in
                                Done (setVoteBalance s d
                                  (if revert then vb + la else vb - la)))))))
      else Done s)"

text \<open>The loop over the payments of a multi-payment (lines 365 to 379).\<close>

fun updatePaymentRecipients :: "IMultiPaymentItem list \<Rightarrow> bool \<Rightarrow> ledger \<Rightarrow> outcome" where
  "updatePaymentRecipients [] revert s = Done s"
| "updatePaymentRecipients (p # ps) revert s =
     (case findByAddress s (item_recipientId p) of
        Inl e \<Rightarrow> Threw e s
      | Inr recipientWallet \<Rightarrow>
          (case vote (wallets s recipientWallet) of
             None \<Rightarrow> updatePaymentRecipients ps revert s
           | Some pk \<Rightarrow>
               (case findByPublicKey s pk of
                  Inl e \<Rightarrow> Threw e s
                | Inr d \<Rightarrow>
                    (let vb = getVoteBalance s d in
                     updatePaymentRecipients ps revert
                       (setVoteBalance s d
                          (if revert then vb - item_amount p else vb + item_amount p))))))"

definition updateMultiPayment :: "ledger \<Rightarrow> ITransactionData \<Rightarrow> bool \<Rightarrow> outcome" where
  "updateMultiPayment s t revert =
     (if type t = MultiPayment \<and> typeGroup t = Core
      then (case asset_payments t of
              None \<Rightarrow> Threw AssertionError s
            | Some ps \<Rightarrow> updatePaymentRecipients ps revert s)
      else Done s)"

text \<open>The vote balance of the recipient's delegate (lines 382 to 401).\<close>

definition updateRecipientDelegate ::
  "ledger \<Rightarrow> string option \<Rightarrow> ITransactionData \<Rightarrow> bool \<Rightarrow> outcome" where
  "updateRecipientDelegate s recipient t revert =
     (case recipient of
        None \<Rightarrow> Done s
      | Some r \<Rightarrow>
          (case vote (wallets s r) of
             None \<Rightarrow> Done s
           | Some pk \<Rightarrow>
               (if type t \<noteq> HtlcLock \<or> typeGroup t \<noteq> Core
                then (case findByPublicKey s pk of
                        Inl e \<Rightarrow> Threw e s
                      | Inr d \<Rightarrow>
                          (let vb = getVoteBalance s d in
                           Done (setVoteBalance s d
                             (if revert then vb - amount t else vb + amount t))))
                else Done s)))"

definition updateVoteBalances ::
  "ledger \<Rightarrow> string \<Rightarrow> string option \<Rightarrow> ITransactionData \<Rightarrow> string option \<Rightarrow> int option
     \<Rightarrow> bool \<Rightarrow> outcome" where
  "updateVoteBalances s sender recipient t lockWallet lockTransaction revert =
     (if type t = Vote \<and> typeGroup t = Core
      then updateVoteTarget s sender t revert
      else andThen (updateSenderDelegate s sender t lockTransaction revert) (\<lambda>s1.
           andThen (updateLockWalletDelegate s1 t lockWallet lockTransaction revert) (\<lambda>s2.
           andThen (updateMultiPayment s2 t revert) (\<lambda>s3.
           updateRecipientDelegate s3 recipient t revert))))"

definition applyVoteBalances ::
  "ledger \<Rightarrow> string \<Rightarrow> string option \<Rightarrow> ITransactionData \<Rightarrow> string option \<Rightarrow> int option
     \<Rightarrow> outcome" where
  "applyVoteBalances s sender recipient t lockWallet lockTransaction =
     updateVoteBalances s sender recipient t lockWallet lockTransaction False"

definition revertVoteBalances ::
  "ledger \<Rightarrow> string \<Rightarrow> string option \<Rightarrow> ITransactionData \<Rightarrow> string option \<Rightarrow> int option
     \<Rightarrow> outcome" where
  "revertVoteBalances s sender recipient t lockWallet lockTransaction =
     updateVoteBalances s sender recipient t lockWallet lockTransaction True"

section \<open>Transactions\<close>

text \<open>
  The lock owner and the lock record of a claim (lines 117 to 126 and 171 to 180): the
  owner is found through the lock index, the record is read from its
  \<^verbatim>\<open>htlc.locks\<close> and is undefined when the owner has no such lock.
\<close>

definition lookupLock ::
  "ledger \<Rightarrow> ITransactionData \<Rightarrow> error + (string option \<times> int option)" where
  "lookupLock s t =
     (if type t = HtlcClaim \<and> typeGroup t = Core
      then (case asset_claim t of
              None \<Rightarrow> Inl AssertionError
            | Some lockId \<Rightarrow>
                (case findByIndexLocks s lockId of
                   Inl e \<Rightarrow> Inl e
                 | Inr lw \<Rightarrow> Inr (Some lw, map_of (htlc_locks (wallets s lw)) lockId)))
      else Inr (None, None))"

text \<open>
  The recipient (lines 134 to 141 and 158 to 165): looked up only when
  \<^verbatim>\<open>recipientId\<close> is truthy and the address is in the ledger.
\<close>

definition lookupRecipient :: "ledger \<Rightarrow> ITransactionData \<Rightarrow> error + string option" where
  "lookupRecipient s t =
     (case recipientId t of
        None \<Rightarrow> Inr None
      | Some r \<Rightarrow>
          (if r = [] then Inr None
           else if hasByAddress s r
           then (case findByAddress s r of Inl e \<Rightarrow> Inl e | Inr a \<Rightarrow> Inr (Some a))
           else Inr None))"

definition applyTransaction :: "env \<Rightarrow> ITransactionData \<Rightarrow> ledger \<Rightarrow> outcome" where
  "applyTransaction E t s =
     (let transactionHandler = registry E t in
      case lookupLock s t of
        Inl e \<Rightarrow> Threw e s
      | Inr (lockWallet, lockTransaction) \<Rightarrow>
          andThen (handler_apply transactionHandler t s) (\<lambda>s1.
            case senderPublicKey t of
              None \<Rightarrow> Threw AssertionError s1
            | Some pk \<Rightarrow>
                (case findByPublicKey s1 pk of
                   Inl e \<Rightarrow> Threw e s1
                 | Inr sender \<Rightarrow>
                     (case lookupRecipient s1 t of
                        Inl e \<Rightarrow> Threw e s1
                      | Inr recipient \<Rightarrow>
                          applyVoteBalances s1 sender recipient t lockWallet lockTransaction))))"

definition revertTransaction :: "env \<Rightarrow> ITransactionData \<Rightarrow> ledger \<Rightarrow> outcome" where
  "revertTransaction E t s =
     (let transactionHandler = registry E t in
      case senderPublicKey t of
        None \<Rightarrow> Threw AssertionError s
      | Some pk \<Rightarrow>
          (case findByPublicKey s pk of
             Inl e \<Rightarrow> Threw e s
           | Inr sender \<Rightarrow>
               (case lookupRecipient s t of
                  Inl e \<Rightarrow> Threw e s
                | Inr recipient \<Rightarrow>
                    andThen (handler_revert transactionHandler t s) (\<lambda>s1.
                      case lookupLock s1 t of
                        Inl e \<Rightarrow> Threw e s1
                      | Inr (lockWallet, lockTransaction) \<Rightarrow>
                          revertVoteBalances s1 sender recipient t lockWallet lockTransaction))))"

section \<open>Blocks\<close>

text \<open>
  The arithmetic of the production counter. \<open>bitLength n\<close> is the number of binary
  digits of a positive integer. \<open>roundToDouble x\<close> rounds an integer to a double:
  the significand of a double has 53 binary digits, so the doubles around \<open>x\<close> are
  the multiples of \<open>u = 2 ^ (bitLength \<bar>x\<bar> - 53)\<close>, and \<open>x\<close> goes to the nearest
  multiple, to the one with the even significand when it is half way between two. Added
  to or subtracted from a double, one never leads out of the range of the doubles.
\<close>

function bitLength :: "int \<Rightarrow> nat" where
  "bitLength n = (if n \<le> 0 then 0 else Suc (bitLength (n div 2)))"
  by pat_completeness auto

termination bitLength
  by (relation "measure nat") auto

declare bitLength.simps [simp del]

definition roundToDouble :: "int \<Rightarrow> int" where
  "roundToDouble x =
     (let u = 2 ^ (bitLength \<bar>x\<bar> - 53); q = x div u; r = x mod u in
      if 2 * r < u \<or> (2 * r = u \<and> even q) then q * u else (q + 1) * u)"

text \<open>\<^verbatim>\<open>delegate.producedBlocks++\<close> and \<^verbatim>\<open>delegate.producedBlocks--\<close>\<close>

definition jsIncrement :: "int \<Rightarrow> int" where
  "jsIncrement n = roundToDouble (n + 1)"

definition jsDecrement :: "int \<Rightarrow> int" where
  "jsDecrement n = roundToDouble (n - 1)"

definition updateWallet :: "ledger \<Rightarrow> string \<Rightarrow> (Wallet \<Rightarrow> Wallet) \<Rightarrow> ledger" where
  "updateWallet s a f = s\<lparr>wallets := (wallets s)(a := f (wallets s a))\<rparr>"

text \<open>
  \<^verbatim>\<open>applyBlockToDelegate\<close> returns whether the block was applied to the wallet. The
  balance is credited before the \<^verbatim>\<open>delegate\<close> attribute is read, so on a wallet
  without that attribute the statistics update throws with the balance already credited.
\<close>

definition applyBlockToDelegate ::
  "env \<Rightarrow> ledger \<Rightarrow> string \<Rightarrow> IBlockData \<Rightarrow> (error + bool) \<times> ledger" where
  "applyBlockToDelegate E s wallet block =
     (if Some (generatorPublicKey block) = publicKey (wallets s wallet)
         \<or> fromPublicKey E (generatorPublicKey block) = address (wallets s wallet)
      then (let s1 = updateWallet s wallet
                       (\<lambda>w. w\<lparr>balance := balance w + reward block + totalFee block\<rparr>) in
            case delegate (wallets s1 wallet) of
              None \<Rightarrow> (Inl TypeError, s1)
            | Some d \<Rightarrow>
                (Inr True,
                 updateWallet s1 wallet (\<lambda>w. w\<lparr>delegate := Some
                   (d\<lparr>producedBlocks := jsIncrement (producedBlocks d),
                      forgedFees := forgedFees d + totalFee block,
                      forgedRewards := forgedRewards d + reward block,
                      lastBlock := Some block\<rparr>)\<rparr>)))
      else (Inr False, s))"

definition revertBlockFromDelegate ::
  "env \<Rightarrow> ledger \<Rightarrow> string \<Rightarrow> IBlockData \<Rightarrow> (error + bool) \<times> ledger" where
  "revertBlockFromDelegate E s wallet block =
     (if Some (generatorPublicKey block) = publicKey (wallets s wallet)
         \<or> fromPublicKey E (generatorPublicKey block) = address (wallets s wallet)
      then (let s1 = updateWallet s wallet
                       (\<lambda>w. w\<lparr>balance := balance w - reward block - totalFee block\<rparr>) in
            case delegate (wallets s1 wallet) of
              None \<Rightarrow> (Inl TypeError, s1)
            | Some d \<Rightarrow>
                (Inr True,
                 updateWallet s1 wallet (\<lambda>w. w\<lparr>delegate := Some
                   (d\<lparr>forgedFees := forgedFees d - totalFee block,
                      forgedRewards := forgedRewards d - reward block,
                      producedBlocks := jsDecrement (producedBlocks d),
                      lastBlock := None\<rparr>)\<rparr>)))
      else (Inr False, s))"

text \<open>
  The vote balance of the delegate that the block's producer backs (lines 48 to 55 and 91
  to 98); \<open>change\<close> is the increase, or the negated decrease. The attribute is read
  without a default, so a missing vote balance is undefined and the arithmetic throws.
\<close>

definition updateVotedDelegate :: "ledger \<Rightarrow> string \<Rightarrow> int \<Rightarrow> outcome" where
  "updateVotedDelegate s delegateWallet change =
     (case vote (wallets s delegateWallet) of
        None \<Rightarrow> Done s
      | Some pk \<Rightarrow>
          (case findByPublicKey s pk of
             Inl e \<Rightarrow> Threw e s
           | Inr votedDelegate \<Rightarrow>
               (case voteBalance (wallets s votedDelegate) of
                  None \<Rightarrow> Threw TypeError s
                | Some vb \<Rightarrow> Done (setVoteBalance s votedDelegate (vb + change)))))"

text \<open>The loop of lines 38 to 41, with the list of applied transactions.\<close>

fun applyTransactions ::
  "env \<Rightarrow> ITransactionData list \<Rightarrow> ITransactionData list \<Rightarrow> ledger
     \<Rightarrow> outcome \<times> ITransactionData list" where
  "applyTransactions E [] appliedTransactions s = (Done s, appliedTransactions)"
| "applyTransactions E (t # ts) appliedTransactions s =
     (case applyTransaction E t s of
        Threw e s1 \<Rightarrow> (Threw e s1, appliedTransactions)
      | Done s1 \<Rightarrow> applyTransactions E ts (appliedTransactions @ [t]) s1)"

text \<open>
  The loop of lines 80 to 84; its second argument is the block's transactions from last to
  first.
\<close>

fun revertTransactions ::
  "env \<Rightarrow> ITransactionData list \<Rightarrow> ITransactionData list \<Rightarrow> ledger
     \<Rightarrow> outcome \<times> ITransactionData list" where
  "revertTransactions E [] revertedTransactions s = (Done s, revertedTransactions)"
| "revertTransactions E (t # ts) revertedTransactions s =
     (case revertTransaction E t s of
        Threw e s1 \<Rightarrow> (Threw e s1, revertedTransactions)
      | Done s1 \<Rightarrow> revertTransactions E ts (revertedTransactions @ [t]) s1)"

text \<open>
  The loops of the two catch blocks (lines 60 to 62 and 102 to 104): the first throw ends
  the loop and replaces the caught error.
\<close>

fun revertAll :: "env \<Rightarrow> ITransactionData list \<Rightarrow> ledger \<Rightarrow> outcome" where
  "revertAll E [] s = Done s"
| "revertAll E (t # ts) s = andThen (revertTransaction E t s) (revertAll E ts)"

fun applyAll :: "env \<Rightarrow> ITransactionData list \<Rightarrow> ledger \<Rightarrow> outcome" where
  "applyAll E [] s = Done s"
| "applyAll E (t # ts) s = andThen (applyTransaction E t s) (applyAll E ts)"

definition rethrowAfter :: "error \<Rightarrow> outcome \<Rightarrow> outcome" where
  "rethrowAfter e r = (case r of Done s \<Rightarrow> Threw e s | Threw e' s \<Rightarrow> Threw e' s)"

definition lookupFailed :: "IBlockData \<Rightarrow> string" where
  "lookupFailed block =
     ''Failed to lookup generator '' @ [CHR 0x27] @ generatorPublicKey block @ [CHR 0x27]
       @ '' of block '' @ [CHR 0x27] @ block_id block @ [CHR 0x27] @ ''.''"

text \<open>
  Lines 15 to 35 of \<^verbatim>\<open>applyBlock\<close>: the producer's wallet, if there is one, and the
  ledger after the lookup.
\<close>

definition lookupGenerator ::
  "env \<Rightarrow> IBlock \<Rightarrow> ledger \<Rightarrow> (error + string option) \<times> ledger" where
  "lookupGenerator E block s =
     (let generatorKey = generatorPublicKey (data block) in
      if \<not> has s generatorKey
      then (let generator = fromPublicKey E generatorKey in
            if height (data block) = 1
            then (let (d, s1) = createWallet s generator;
                      s2 = updateWallet s1 d (\<lambda>w. w\<lparr>publicKey := Some generatorKey\<rparr>)
                  in (Inr (Some d), reindex s2 d))
            else (Inr None, terminate s (lookupFailed (data block))))
      else (case findByPublicKey s generatorKey of
              Inl e \<Rightarrow> (Inl e, s)
            | Inr d \<Rightarrow> (Inr (Some d), s)))"

text \<open>
  Lines 43 to 55 of \<^verbatim>\<open>applyBlock\<close>: the block is applied to the producer's wallet
  and, if it was, the delegate that the producer backs gets the increase.
\<close>

definition creditDelegate :: "env \<Rightarrow> IBlock \<Rightarrow> string \<Rightarrow> ledger \<Rightarrow> outcome" where
  "creditDelegate E block delegateWallet s =
     (case applyBlockToDelegate E s delegateWallet (data block) of
        (Inl e, s2) \<Rightarrow> Threw e s2
      | (Inr applied, s2) \<Rightarrow>
          (if applied
           then updateVotedDelegate s2 delegateWallet
                  (reward (data block) + totalFee (data block))
           else Done s2))"

text \<open>The try block of \<^verbatim>\<open>applyBlock\<close> (lines 37 to 55).\<close>

definition applyBlockTry ::
  "env \<Rightarrow> IBlock \<Rightarrow> string \<Rightarrow> ledger \<Rightarrow> outcome \<times> ITransactionData list" where
  "applyBlockTry E block delegateWallet s =
     (case applyTransactions E (transactions block) [] s of
        (Threw e s1, appliedTransactions) \<Rightarrow> (Threw e s1, appliedTransactions)
      | (Done s1, appliedTransactions) \<Rightarrow>
          (creditDelegate E block delegateWallet s1, appliedTransactions))"

definition applyBlock :: "env \<Rightarrow> IBlock \<Rightarrow> ledger \<Rightarrow> outcome" where
  "applyBlock E block s =
     (case lookupGenerator E block s of
        (Inl e, s0) \<Rightarrow> Threw e s0
      | (Inr None, s0) \<Rightarrow> Threw AssertionError s0
      | (Inr (Some delegateWallet), s0) \<Rightarrow>
          (case applyBlockTry E block delegateWallet s0 of
             (Done s1, appliedTransactions) \<Rightarrow> Done s1
           | (Threw e s1, appliedTransactions) \<Rightarrow>
               rethrowAfter e (revertAll E (rev appliedTransactions) s1)))"

text \<open>
  Lines 86 to 98 of \<^verbatim>\<open>revertBlock\<close>: the block is reverted from the producer's
  wallet and, if it was, the delegate that the producer backs loses the decrease.
\<close>

definition debitDelegate :: "env \<Rightarrow> IBlock \<Rightarrow> string \<Rightarrow> ledger \<Rightarrow> outcome" where
  "debitDelegate E block delegateWallet s =
     (case revertBlockFromDelegate E s delegateWallet (data block) of
        (Inl e, s2) \<Rightarrow> Threw e s2
      | (Inr reverted, s2) \<Rightarrow>
          (if reverted
           then updateVotedDelegate s2 delegateWallet
                  (- (reward (data block) + totalFee (data block)))
           else Done s2))"

text \<open>The try block of \<^verbatim>\<open>revertBlock\<close> (lines 78 to 98).\<close>

definition revertBlockTry ::
  "env \<Rightarrow> IBlock \<Rightarrow> string \<Rightarrow> ledger \<Rightarrow> outcome \<times> ITransactionData list" where
  "revertBlockTry E block delegateWallet s =
     (case revertTransactions E (rev (transactions block)) [] s of
        (Threw e s1, revertedTransactions) \<Rightarrow> (Threw e s1, revertedTransactions)
      | (Done s1, revertedTransactions) \<Rightarrow>
          (debitDelegate E block delegateWallet s1, revertedTransactions))"

definition revertBlock :: "env \<Rightarrow> IBlock \<Rightarrow> ledger \<Rightarrow> outcome" where
  "revertBlock E block s =
     (let s0 = (if \<not> has s (generatorPublicKey (data block))
                then terminate s (lookupFailed (data block)) else s) in
      case findByPublicKey s0 (generatorPublicKey (data block)) of
        Inl e \<Rightarrow> Threw e s0
      | Inr delegateWallet \<Rightarrow>
          (case revertBlockTry E block delegateWallet s0 of
             (Done s1, revertedTransactions) \<Rightarrow> Done s1
           | (Threw e s1, revertedTransactions) \<Rightarrow>
               rethrowAfter e (applyAll E (rev revertedTransactions) s1)))"

section \<open>Notions used in the statements\<close>

text \<open>The ledger that a call leaves, and the error it throws, if any.\<close>

definition ledgerOf :: "outcome \<Rightarrow> ledger" where
  "ledgerOf r = (case r of Done s \<Rightarrow> s | Threw e s \<Rightarrow> s)"

definition thrown :: "outcome \<Rightarrow> error option" where
  "thrown r = (case r of Done s \<Rightarrow> None | Threw e s \<Rightarrow> Some e)"

text \<open>
  \<open>backs s w d\<close>: the wallet \<open>w\<close> has a vote and the voted public key is the
  wallet \<open>d\<close>. \<open>delegateKnown s w\<close>: the wallet \<open>w\<close> has no vote, or the
  voted public key is in the ledger; \<open>recipientKnown\<close> is the same for an optional
  recipient. \<open>onlyVoteBalances s s'\<close>: the ledger \<open>s'\<close> is \<open>s\<close> except for
  the vote balances of its wallets. \<open>signed revert x\<close> is \<open>x\<close> when applying and
  \<open>- x\<close> when reverting. \<open>paymentsTotal ps\<close> is the sum of the payment amounts,
  \<open>paymentsBacking s ps d\<close> the sum over the payments whose recipient backs
  \<open>d\<close>, \<open>recipientShare s r t d\<close> the transaction's amount when the recipient
  \<open>r\<close> backs \<open>d\<close>, and \<open>senderCharge t\<close> what an ordinary transaction
  costs the sender's delegate: the fee for a timed-lock creation, amount plus fee
  otherwise.
\<close>

definition backs :: "ledger \<Rightarrow> string \<Rightarrow> string \<Rightarrow> bool" where
  "backs s w d = (case vote (wallets s w) of None \<Rightarrow> False | Some pk \<Rightarrow> publicKeys s pk = Some d)"

definition delegateKnown :: "ledger \<Rightarrow> string \<Rightarrow> bool" where
  "delegateKnown s w = (case vote (wallets s w) of None \<Rightarrow> True | Some pk \<Rightarrow> publicKeys s pk \<noteq> None)"

definition onlyVoteBalances :: "ledger \<Rightarrow> ledger \<Rightarrow> bool" where
  "onlyVoteBalances s s' =
     (s' = s\<lparr>wallets := (\<lambda>a. (wallets s a)\<lparr>voteBalance := voteBalance (wallets s' a)\<rparr>)\<rparr>)"

definition signed :: "bool \<Rightarrow> int \<Rightarrow> int" where
  "signed revert x = (if revert then - x else x)"

definition paymentsTotal :: "IMultiPaymentItem list \<Rightarrow> int" where
  "paymentsTotal ps = sum_list (map item_amount ps)"

definition paymentsBacking :: "ledger \<Rightarrow> IMultiPaymentItem list \<Rightarrow> string \<Rightarrow> int" where
  "paymentsBacking s ps d =
     sum_list (map item_amount (filter (\<lambda>p. backs s (item_recipientId p) d) ps))"

definition recipientKnown :: "ledger \<Rightarrow> string option \<Rightarrow> bool" where
  "recipientKnown s recipient = (case recipient of None \<Rightarrow> True | Some r \<Rightarrow> delegateKnown s r)"

definition recipientShare :: "ledger \<Rightarrow> string option \<Rightarrow> ITransactionData \<Rightarrow> string \<Rightarrow> int" where
  "recipientShare s recipient t d =
     (case recipient of None \<Rightarrow> 0 | Some r \<Rightarrow> if backs s r d then amount t else 0)"

definition senderCharge :: "ITransactionData \<Rightarrow> int" where
  "senderCharge t = (if type t = HtlcLock \<and> typeGroup t = Core then fee t else amount t + fee t)"



definition foreign :: "ledger \<Rightarrow> ledger \<Rightarrow> bool" where
  "foreign s r =
     (r = s\<lparr>wallets := (\<lambda>a. (wallets s a)\<lparr>balance := balance (wallets r a),
              voteBalance := voteBalance (wallets r a), delegate := delegate (wallets r a)\<rparr>)\<rparr>)"
















section \<open>An example ledger\<close>

text \<open>
  A handler pair, a ledger and transactions on which the theorems below are instantiated.
  The handler moves the amount from the sender to the recipient and charges the fee; it
  rejects a transaction whose sender is not in the ledger.
\<close>

definition moveFunds :: "int \<Rightarrow> ITransactionData \<Rightarrow> string \<Rightarrow> ledger \<Rightarrow> ledger" where
  "moveFunds k t sender s =
     (let s1 = updateWallet s sender (\<lambda>w. w\<lparr>balance := balance w - k * (amount t + fee t)\<rparr>) in
      case recipientId t of
        None \<Rightarrow> s1
      | Some r \<Rightarrow> (if r \<in> addresses s1
                   then updateWallet s1 r (\<lambda>w. w\<lparr>balance := balance w + k * amount t\<rparr>)
                   else s1))"

definition exampleHandler :: Handler where
  "exampleHandler =
     \<lparr>handler_apply = (\<lambda>t s.
        case senderPublicKey t of
          None \<Rightarrow> Threw (HandlerError ''sender'') s
        | Some pk \<Rightarrow>
            (case publicKeys s pk of
               None \<Rightarrow> Threw (HandlerError ''sender'') s
             | Some a \<Rightarrow> Done (moveFunds 1 t a s))),
      handler_revert = (\<lambda>t s.
        case senderPublicKey t of
          None \<Rightarrow> Threw (HandlerError ''sender'') s
        | Some pk \<Rightarrow>
            (case publicKeys s pk of
               None \<Rightarrow> Threw (HandlerError ''sender'') s
             | Some a \<Rightarrow> Done (moveFunds (- 1) t a s)))\<rparr>"

definition exampleEnv :: env where
  "exampleEnv = \<lparr>fromPublicKey = (\<lambda>pk. CHR ''A'' # pk), registry = (\<lambda>t. exampleHandler)\<rparr>"

definition exampleGenesis :: IBlockData where
  "exampleGenesis =
     \<lparr>block_id = ''b1'', generatorPublicKey = ''dora'', height = 1, reward = 0, totalFee = 0\<rparr>"

definition exampleWallet :: "string \<Rightarrow> int \<Rightarrow> string option \<Rightarrow> int option \<Rightarrow> Wallet" where
  "exampleWallet pk b v vb =
     \<lparr>address = CHR ''A'' # pk, publicKey = Some pk, balance = b, vote = v, voteBalance = vb,
      delegate = (case vb of
                    None \<Rightarrow> None
                  | Some _ \<Rightarrow> Some \<lparr>producedBlocks = 1, forgedFees = 0, forgedRewards = 0,
                                    lastBlock = Some exampleGenesis\<rparr>),
      htlc_locks = []\<rparr>"

definition exampleLedger :: ledger where
  "exampleLedger =
     \<lparr>wallets = newWallet
        (''Aalice'' := exampleWallet ''alice'' 1000 None None,
         ''Abob'' := exampleWallet ''bob'' 500 (Some ''eve'') None,
         ''Adora'' := exampleWallet ''dora'' 0 (Some ''dora'') (Some 1000),
         ''Aeve'' := exampleWallet ''eve'' 0 None (Some 500)),
      addresses = {''Aalice'', ''Abob'', ''Adora'', ''Aeve''},
      publicKeys = [''alice'' \<mapsto> ''Aalice'', ''bob'' \<mapsto> ''Abob'', ''dora'' \<mapsto> ''Adora'',
                    ''eve'' \<mapsto> ''Aeve''],
      locks = Map.empty,
      faults = []\<rparr>"

definition exampleVote :: ITransactionData where
  "exampleVote =
     \<lparr>type = Vote, typeGroup = Core, senderPublicKey = Some ''alice'', recipientId = None,
      amount = 0, fee = 10, asset_votes = Some [''+dora''], asset_claim = None,
      asset_payments = None\<rparr>"

definition exampleTransfer :: ITransactionData where
  "exampleTransfer =
     \<lparr>type = Transfer, typeGroup = Core, senderPublicKey = Some ''bob'',
      recipientId = Some ''Aalice'', amount = 100, fee = 10, asset_votes = None,
      asset_claim = None, asset_payments = None\<rparr>"

definition exampleBlock :: IBlock where
  "exampleBlock =
     \<lparr>data = \<lparr>block_id = ''b2'', generatorPublicKey = ''dora'', height = 2, reward = 200,
              totalFee = 10\<rparr>,
      transactions = [exampleTransfer]\<rparr>"

definition exampleLocks :: ledger where
  "exampleLocks =
     exampleLedger\<lparr>wallets := (wallets exampleLedger)
        (''Aalice'' := exampleWallet ''alice'' 1000 (Some ''dora'') None,
         ''Abob'' := (exampleWallet ''bob'' 500 (Some ''eve'') None)
                       \<lparr>htlc_locks := [(''lock1'', 400)]\<rparr>),
       locks := [''lock1'' \<mapsto> ''Abob'']\<rparr>"

definition exampleClaim :: ITransactionData where
  "exampleClaim =
     \<lparr>type = HtlcClaim, typeGroup = Core, senderPublicKey = Some ''alice'', recipientId = None,
      amount = 0, fee = 5, asset_votes = None, asset_claim = Some ''lock1'',
      asset_payments = None\<rparr>"

definition exampleMultiPayment :: ITransactionData where
  "exampleMultiPayment =
     \<lparr>type = MultiPayment, typeGroup = Core, senderPublicKey = Some ''bob'', recipientId = None,
      amount = 0, fee = 10, asset_votes = None, asset_claim = None,
      asset_payments = Some [\<lparr>item_recipientId = ''Adora'', item_amount = 100\<rparr>,
                             \<lparr>item_recipientId = ''Aalice'', item_amount = 50\<rparr>]\<rparr>"



definition exampleLostTransfer :: ITransactionData where
  "exampleLostTransfer = exampleTransfer\<lparr>recipientId := Some ''Azed''\<rparr>"







definition exampleEmptyBlock :: IBlock where
  "exampleEmptyBlock =
     \<lparr>data = \<lparr>block_id = ''b9'', generatorPublicKey = ''dora'', height = 9, reward = 200,
              totalFee = 0\<rparr>,
      transactions = []\<rparr>"



definition exampleVeteran :: ledger where
  "exampleVeteran =
     exampleLedger\<lparr>wallets := (wallets exampleLedger)
        (''Adora'' := (exampleWallet ''dora'' 0 (Some ''dora'') (Some 1000))
           \<lparr>delegate := Some \<lparr>producedBlocks = 9007199254740992, forgedFees = 0,
                               forgedRewards = 0, lastBlock = Some exampleGenesis\<rparr>\<rparr>)\<rparr>"





lemmas notion_defs = backs_def delegateKnown_def recipientKnown_def recipientShare_def
  paymentsTotal_def paymentsBacking_def

lemmas example_defs = exampleLedger_def exampleVote_def exampleEnv_def exampleHandler_def
  exampleWallet_def exampleTransfer_def exampleBlock_def exampleGenesis_def moveFunds_def
  updateWallet_def findByPublicKey_def

lemmas engine_defs = applyTransaction_def revertTransaction_def lookupLock_def andThen_def
  applyVoteBalances_def revertVoteBalances_def updateVoteBalances_def updateVoteTarget_def
  updateSenderDelegate_def updateLockWalletDelegate_def updateMultiPayment_def
  updateRecipientDelegate_def lookupRecipient_def hasByAddress_def findByAddress_def
  getVoteBalance_def setVoteBalance_def has_def Let_def

lemmas block_defs = applyBlock_def applyBlockTry_def creditDelegate_def applyBlockToDelegate_def
  updateVotedDelegate_def lookupGenerator_def revertBlock_def revertBlockTry_def
  debitDelegate_def revertBlockFromDelegate_def rethrowAfter_def

section \<open>Vote balances change, and nothing else\<close>

lemma onlyVoteBalances_refl: "onlyVoteBalances s s"
  by (simp add: onlyVoteBalances_def)

lemma onlyVoteBalances_set: "onlyVoteBalances s (setVoteBalance s d v)"
  by (auto simp: onlyVoteBalances_def setVoteBalance_def fun_eq_iff intro!: ledger.equality)

lemma onlyVoteBalances_fields:
  assumes "onlyVoteBalances s s'"
  shows "addresses s' = addresses s" "publicKeys s' = publicKeys s" "locks s' = locks s"
    "faults s' = faults s" "vote (wallets s' a) = vote (wallets s a)"
    "balance (wallets s' a) = balance (wallets s a)"
    "delegate (wallets s' a) = delegate (wallets s a)"
    "htlc_locks (wallets s' a) = htlc_locks (wallets s a)"
    "publicKey (wallets s' a) = publicKey (wallets s a)"
    "address (wallets s' a) = address (wallets s a)"
proof -
  have e: "s' = s\<lparr>wallets := (\<lambda>a. (wallets s a)\<lparr>voteBalance := voteBalance (wallets s' a)\<rparr>)\<rparr>"
    using assms by (simp add: onlyVoteBalances_def)
  show "addresses s' = addresses s" by (subst e) simp
  show "publicKeys s' = publicKeys s" by (subst e) simp
  show "locks s' = locks s" by (subst e) simp
  show "faults s' = faults s" by (subst e) simp
  have w: "wallets s' a = (wallets s a)\<lparr>voteBalance := voteBalance (wallets s' a)\<rparr>"
    by (subst e) simp
  show "vote (wallets s' a) = vote (wallets s a)" by (subst w) simp
  show "balance (wallets s' a) = balance (wallets s a)" by (subst w) simp
  show "delegate (wallets s' a) = delegate (wallets s a)" by (subst w) simp
  show "htlc_locks (wallets s' a) = htlc_locks (wallets s a)" by (subst w) simp
  show "publicKey (wallets s' a) = publicKey (wallets s a)" by (subst w) simp
  show "address (wallets s' a) = address (wallets s a)" by (subst w) simp
qed

lemma onlyVoteBalances_trans:
  assumes "onlyVoteBalances s s1" "onlyVoteBalances s1 s2"
  shows "onlyVoteBalances s s2"
proof -
  have 1: "s1 = s\<lparr>wallets := (\<lambda>a. (wallets s a)\<lparr>voteBalance := voteBalance (wallets s1 a)\<rparr>)\<rparr>"
    using assms(1) by (simp add: onlyVoteBalances_def)
  have 2: "s2 = s1\<lparr>wallets := (\<lambda>a. (wallets s1 a)\<lparr>voteBalance := voteBalance (wallets s2 a)\<rparr>)\<rparr>"
    using assms(2) by (simp add: onlyVoteBalances_def)
  have w: "\<And>a. (wallets s1 a)\<lparr>voteBalance := voteBalance (wallets s2 a)\<rparr>
              = (wallets s a)\<lparr>voteBalance := voteBalance (wallets s2 a)\<rparr>"
    by (subst 1) simp
  have "s2 = s\<lparr>wallets := (\<lambda>a. (wallets s a)\<lparr>voteBalance := voteBalance (wallets s2 a)\<rparr>)\<rparr>"
    by (subst 2, subst w, subst 1) simp
  then show ?thesis by (simp add: onlyVoteBalances_def)
qed

lemma backs_onlyVoteBalances: "onlyVoteBalances s s' \<Longrightarrow> backs s' w d = backs s w d"
  by (simp add: backs_def onlyVoteBalances_fields split: option.splits)

lemma delegateKnown_onlyVoteBalances:
  "onlyVoteBalances s s' \<Longrightarrow> delegateKnown s' w = delegateKnown s w"
  by (simp add: delegateKnown_def onlyVoteBalances_fields split: option.splits)

lemma getVoteBalance_set:
  "getVoteBalance (setVoteBalance s d v) x = (if x = d then v else getVoteBalance s x)"
  by (simp add: getVoteBalance_def setVoteBalance_def)

lemma adjust_visible:
  assumes "publicKeys s pk = Some d" "vote (wallets s w) = Some pk"
  shows "getVoteBalance (setVoteBalance s d (getVoteBalance s d + c)) x
           = getVoteBalance s x + (if backs s w x then c else 0)"
  using assms by (auto simp: getVoteBalance_set backs_def)

lemma fold_payments: "fold (\<lambda>curr prev. prev + item_amount curr) ps acc = acc + paymentsTotal ps"
  by (induction ps arbitrary: acc) (simp_all add: paymentsTotal_def)

lemma updateSenderDelegate_claim:
  assumes "type t = HtlcClaim" "typeGroup t = Core" "delegateKnown s sender"
  shows "\<exists>s'. updateSenderDelegate s sender t (Some la) revert = Done s'
           \<and> onlyVoteBalances s s'
           \<and> (\<forall>x. getVoteBalance s' x
                 = getVoteBalance s x + (if backs s sender x then signed revert (la - fee t) else 0))"
proof (cases "vote (wallets s sender)")
  case None
  then show ?thesis
    by (simp add: updateSenderDelegate_def onlyVoteBalances_refl backs_def)
next
  case (Some pk)
  then obtain d where d: "publicKeys s pk = Some d"
    using assms(3) by (auto simp: delegateKnown_def)
  have "updateSenderDelegate s sender t (Some la) revert
          = Done (setVoteBalance s d (getVoteBalance s d + signed revert (la - fee t)))"
    using assms(1,2) Some d
    by (simp add: updateSenderDelegate_def findByPublicKey_def signed_def Let_def algebra_simps)
  then show ?thesis
    using adjust_visible [OF d Some] by (simp add: onlyVoteBalances_set)
qed

lemma updateSenderDelegate_payments:
  assumes "type t = MultiPayment" "typeGroup t = Core" "asset_payments t = Some ps"
    "delegateKnown s sender"
  shows "\<exists>s'. updateSenderDelegate s sender t lt revert = Done s'
           \<and> onlyVoteBalances s s'
           \<and> (\<forall>x. getVoteBalance s' x
                 = getVoteBalance s x
                   + (if backs s sender x then signed revert (- (paymentsTotal ps + fee t)) else 0))"
proof (cases "vote (wallets s sender)")
  case None
  then show ?thesis
    by (simp add: updateSenderDelegate_def onlyVoteBalances_refl backs_def)
next
  case (Some pk)
  then obtain d where d: "publicKeys s pk = Some d"
    using assms(4) by (auto simp: delegateKnown_def)
  have "updateSenderDelegate s sender t lt revert
          = Done (setVoteBalance s d
                    (getVoteBalance s d + signed revert (- (paymentsTotal ps + fee t))))"
    using assms(1,2,3) Some d
    by (simp add: updateSenderDelegate_def findByPublicKey_def signed_def Let_def fold_payments
        algebra_simps)
  then show ?thesis
    using adjust_visible [OF d Some] by (simp add: onlyVoteBalances_set)
qed

lemma updateLockWalletDelegate_claim:
  assumes "type t = HtlcClaim" "typeGroup t = Core" "delegateKnown s lw"
  shows "\<exists>s'. updateLockWalletDelegate s t (Some lw) (Some la) revert = Done s'
           \<and> onlyVoteBalances s s'
           \<and> (\<forall>x. getVoteBalance s' x
                 = getVoteBalance s x + (if backs s lw x then signed revert (- la) else 0))"
proof (cases "vote (wallets s lw)")
  case None
  then show ?thesis
    using assms(1,2) by (simp add: updateLockWalletDelegate_def onlyVoteBalances_refl backs_def)
next
  case (Some pk)
  then obtain d where d: "publicKeys s pk = Some d"
    using assms(3) by (auto simp: delegateKnown_def)
  have "updateLockWalletDelegate s t (Some lw) (Some la) revert
          = Done (setVoteBalance s d (getVoteBalance s d + signed revert (- la)))"
    using assms(1,2) Some d
    by (simp add: updateLockWalletDelegate_def findByPublicKey_def signed_def Let_def algebra_simps)
  then show ?thesis
    using adjust_visible [OF d Some] by (simp add: onlyVoteBalances_set)
qed

lemma updateRecipientDelegate_net:
  assumes "type t \<noteq> HtlcLock \<or> typeGroup t \<noteq> Core"
    "case recipient of None \<Rightarrow> True | Some r \<Rightarrow> delegateKnown s r"
  shows "\<exists>s'. updateRecipientDelegate s recipient t revert = Done s'
           \<and> onlyVoteBalances s s'
           \<and> (\<forall>x. getVoteBalance s' x
                 = getVoteBalance s x
                   + (case recipient of None \<Rightarrow> 0
                      | Some r \<Rightarrow> if backs s r x then signed revert (amount t) else 0))"
proof (cases recipient)
  case None
  then show ?thesis by (simp add: updateRecipientDelegate_def onlyVoteBalances_refl)
next
  case r: (Some r)
  show ?thesis
  proof (cases "vote (wallets s r)")
    case None
    then show ?thesis
      using r by (simp add: updateRecipientDelegate_def onlyVoteBalances_refl backs_def)
  next
    case (Some pk)
    then obtain d where d: "publicKeys s pk = Some d"
      using assms(2) r by (auto simp: delegateKnown_def)
    have "updateRecipientDelegate s recipient t revert
            = Done (setVoteBalance s d (getVoteBalance s d + signed revert (amount t)))"
      using assms(1) r Some d
      by (auto simp: updateRecipientDelegate_def findByPublicKey_def signed_def Let_def algebra_simps)
    then show ?thesis
      using adjust_visible [OF d Some] r by (simp add: onlyVoteBalances_set)
  qed
qed

lemma updatePaymentRecipients_net:
  assumes "list_all (\<lambda>p. item_recipientId p \<in> addresses s \<and> delegateKnown s (item_recipientId p)) ps"
  shows "\<exists>s'. updatePaymentRecipients ps revert s = Done s'
           \<and> onlyVoteBalances s s'
           \<and> (\<forall>x. getVoteBalance s' x
                 = getVoteBalance s x + signed revert (paymentsBacking s ps x))"
  using assms
proof (induction ps arbitrary: s)
  case Nil
  then show ?case by (simp add: onlyVoteBalances_refl paymentsBacking_def signed_def)
next
  case (Cons p ps)
  let ?r = "item_recipientId p"
  have known: "?r \<in> addresses s" "delegateKnown s ?r" using Cons.prems by simp_all
  have rest: "list_all (\<lambda>p. item_recipientId p \<in> addresses s \<and> delegateKnown s (item_recipientId p)) ps"
    using Cons.prems by simp
  show ?case
  proof (cases "vote (wallets s ?r)")
    case None
    from Cons.IH [OF rest, of ] obtain s' where
      s': "updatePaymentRecipients ps revert s = Done s'" "onlyVoteBalances s s'"
        "\<forall>x. getVoteBalance s' x = getVoteBalance s x + signed revert (paymentsBacking s ps x)"
      by blast
    have nb: "\<And>x. \<not> backs s ?r x" using None by (simp add: backs_def)
    show ?thesis
      using None known s' nb by (simp add: findByAddress_def paymentsBacking_def)
  next
    case (Some pk)
    then obtain d where d: "publicKeys s pk = Some d"
      using known(2) by (auto simp: delegateKnown_def)
    define s1 where "s1 = setVoteBalance s d (getVoteBalance s d + signed revert (item_amount p))"
    have o1: "onlyVoteBalances s s1" by (simp add: s1_def onlyVoteBalances_set)
    have rest1: "list_all (\<lambda>p. item_recipientId p \<in> addresses s1
                    \<and> delegateKnown s1 (item_recipientId p)) ps"
      using rest by (simp add: onlyVoteBalances_fields [OF o1] delegateKnown_onlyVoteBalances [OF o1])
    from Cons.IH [OF rest1] obtain s' where
      s': "updatePaymentRecipients ps revert s1 = Done s'" "onlyVoteBalances s1 s'"
        "\<forall>x. getVoteBalance s' x = getVoteBalance s1 x + signed revert (paymentsBacking s1 ps x)"
      by blast
    have step: "updatePaymentRecipients (p # ps) revert s = updatePaymentRecipients ps revert s1"
      using Some d known
      by (simp add: findByAddress_def findByPublicKey_def s1_def signed_def Let_def algebra_simps)
    have pb: "\<And>x. paymentsBacking s1 ps x = paymentsBacking s ps x"
      by (simp add: paymentsBacking_def backs_onlyVoteBalances [OF o1])
    have v1: "\<And>x. getVoteBalance s1 x
                = getVoteBalance s x + (if backs s ?r x then signed revert (item_amount p) else 0)"
      unfolding s1_def by (rule adjust_visible [OF d Some])
    have "\<forall>x. getVoteBalance s' x = getVoteBalance s1 x + signed revert (paymentsBacking s ps x)"
      using s'(3) by (simp add: pb)
    then have "\<forall>x. getVoteBalance s' x
                 = getVoteBalance s x + signed revert (paymentsBacking s (p # ps) x)"
      by (simp add: v1 paymentsBacking_def signed_def)
    then show ?thesis
      using step s'(1) onlyVoteBalances_trans [OF o1 s'(2)] by simp
  qed
qed

lemma recipientKnown_onlyVoteBalances:
  "onlyVoteBalances s s' \<Longrightarrow> recipientKnown s' r = recipientKnown s r"
  by (simp add: recipientKnown_def delegateKnown_onlyVoteBalances split: option.splits)

lemma recipientShare_onlyVoteBalances:
  "onlyVoteBalances s s' \<Longrightarrow> recipientShare s' r t d = recipientShare s r t d"
  by (simp add: recipientShare_def backs_onlyVoteBalances split: option.splits)

lemma updateRecipientDelegate_share:
  assumes "type t \<noteq> HtlcLock \<or> typeGroup t \<noteq> Core" "recipientKnown s recipient"
  shows "\<exists>s'. updateRecipientDelegate s recipient t revert = Done s'
           \<and> onlyVoteBalances s s'
           \<and> (\<forall>x. getVoteBalance s' x
                 = getVoteBalance s x + signed revert (recipientShare s recipient t x))"
proof -
  from updateRecipientDelegate_net [OF assms(1), where recipient = recipient and s = s and revert = revert] assms(2)
  obtain s' where "updateRecipientDelegate s recipient t revert = Done s'"
    "onlyVoteBalances s s'"
    "\<forall>x. getVoteBalance s' x = getVoteBalance s x
       + (case recipient of None \<Rightarrow> 0
          | Some r \<Rightarrow> if backs s r x then signed revert (amount t) else 0)"
    by (auto simp: recipientKnown_def)
  then show ?thesis
    by (auto simp: recipientShare_def signed_def split: option.splits)
qed

lemma updateVoteBalances_claim:
  assumes t: "type t = HtlcClaim" "typeGroup t = Core"
    and known: "delegateKnown s sender" "delegateKnown s lw" "recipientKnown s recipient"
  shows "\<exists>s'. updateVoteBalances s sender recipient t (Some lw) (Some la) revert = Done s'
           \<and> onlyVoteBalances s s'
           \<and> (\<forall>x. getVoteBalance s' x
                 = getVoteBalance s x
                   + signed revert ((if backs s sender x then la - fee t else 0)
                                    - (if backs s lw x then la else 0)
                                    + recipientShare s recipient t x))"
proof -
  from updateSenderDelegate_claim [OF t known(1), where la = la and revert = revert] obtain s1 where
    s1: "updateSenderDelegate s sender t (Some la) revert = Done s1" "onlyVoteBalances s s1"
      "\<forall>x. getVoteBalance s1 x
         = getVoteBalance s x + (if backs s sender x then signed revert (la - fee t) else 0)"
    by blast
  have k1: "delegateKnown s1 lw" using known(2) by (simp add: delegateKnown_onlyVoteBalances [OF s1(2)])
  from updateLockWalletDelegate_claim [OF t k1, where la = la and revert = revert] obtain s2 where
    s2: "updateLockWalletDelegate s1 t (Some lw) (Some la) revert = Done s2"
      "onlyVoteBalances s1 s2"
      "\<forall>x. getVoteBalance s2 x
         = getVoteBalance s1 x + (if backs s1 lw x then signed revert (- la) else 0)"
    by blast
  have o2: "onlyVoteBalances s s2" by (rule onlyVoteBalances_trans [OF s1(2) s2(2)])
  have m: "updateMultiPayment s2 t revert = Done s2"
    using t by (simp add: updateMultiPayment_def)
  have k2: "recipientKnown s2 recipient"
    using known(3) by (simp add: recipientKnown_onlyVoteBalances [OF o2])
  have nl: "type t \<noteq> HtlcLock \<or> typeGroup t \<noteq> Core" using t by simp
  from updateRecipientDelegate_share [OF nl k2, where revert = revert] obtain s3 where
    s3: "updateRecipientDelegate s2 recipient t revert = Done s3" "onlyVoteBalances s2 s3"
      "\<forall>x. getVoteBalance s3 x
         = getVoteBalance s2 x + signed revert (recipientShare s2 recipient t x)"
    by blast
  have run: "updateVoteBalances s sender recipient t (Some lw) (Some la) revert = Done s3"
    using t s1(1) s2(1) m s3(1) by (simp add: updateVoteBalances_def andThen_def)
  have net: "\<forall>x. getVoteBalance s3 x
       = getVoteBalance s x
         + signed revert ((if backs s sender x then la - fee t else 0)
                          - (if backs s lw x then la else 0)
                          + recipientShare s recipient t x)"
    using s1(3) s2(3) s3(3)
    by (simp add: backs_onlyVoteBalances [OF s1(2)] recipientShare_onlyVoteBalances [OF o2]
        signed_def)
  show ?thesis
    using run onlyVoteBalances_trans [OF o2 s3(2)] net by blast
qed

lemma updateVoteBalances_payments:
  assumes t: "type t = MultiPayment" "typeGroup t = Core" "asset_payments t = Some ps"
    and known: "delegateKnown s sender"
      "list_all (\<lambda>p. item_recipientId p \<in> addresses s \<and> delegateKnown s (item_recipientId p)) ps"
      "recipientKnown s recipient"
  shows "\<exists>s'. updateVoteBalances s sender recipient t lw lt revert = Done s'
           \<and> onlyVoteBalances s s'
           \<and> (\<forall>x. getVoteBalance s' x
                 = getVoteBalance s x
                   + signed revert (paymentsBacking s ps x
                                    - (if backs s sender x then paymentsTotal ps + fee t else 0)
                                    + recipientShare s recipient t x))"
proof -
  from updateSenderDelegate_payments [OF t known(1), where lt = lt and revert = revert] obtain s1 where
    s1: "updateSenderDelegate s sender t lt revert = Done s1" "onlyVoteBalances s s1"
      "\<forall>x. getVoteBalance s1 x
         = getVoteBalance s x
           + (if backs s sender x then signed revert (- (paymentsTotal ps + fee t)) else 0)"
    by blast
  have l: "updateLockWalletDelegate s1 t lw lt revert = Done s1"
    using t by (simp add: updateLockWalletDelegate_def)
  have k1: "list_all (\<lambda>p. item_recipientId p \<in> addresses s1
                \<and> delegateKnown s1 (item_recipientId p)) ps"
    using known(2)
    by (simp add: onlyVoteBalances_fields [OF s1(2)] delegateKnown_onlyVoteBalances [OF s1(2)])
  from updatePaymentRecipients_net [OF k1, where revert = revert] obtain s2 where
    s2: "updatePaymentRecipients ps revert s1 = Done s2" "onlyVoteBalances s1 s2"
      "\<forall>x. getVoteBalance s2 x = getVoteBalance s1 x + signed revert (paymentsBacking s1 ps x)"
    by blast
  have m: "updateMultiPayment s1 t revert = Done s2"
    using t s2(1) by (simp add: updateMultiPayment_def)
  have o2: "onlyVoteBalances s s2" by (rule onlyVoteBalances_trans [OF s1(2) s2(2)])
  have k2: "recipientKnown s2 recipient"
    using known(3) by (simp add: recipientKnown_onlyVoteBalances [OF o2])
  have nl: "type t \<noteq> HtlcLock \<or> typeGroup t \<noteq> Core" using t by simp
  from updateRecipientDelegate_share [OF nl k2, where revert = revert] obtain s3 where
    s3: "updateRecipientDelegate s2 recipient t revert = Done s3" "onlyVoteBalances s2 s3"
      "\<forall>x. getVoteBalance s3 x
         = getVoteBalance s2 x + signed revert (recipientShare s2 recipient t x)"
    by blast
  have run: "updateVoteBalances s sender recipient t lw lt revert = Done s3"
    using t s1(1) l m s3(1) by (simp add: updateVoteBalances_def andThen_def)
  have pb: "\<And>x. paymentsBacking s1 ps x = paymentsBacking s ps x"
    by (simp add: paymentsBacking_def backs_onlyVoteBalances [OF s1(2)])
  have net: "\<forall>x. getVoteBalance s3 x
       = getVoteBalance s x
         + signed revert (paymentsBacking s ps x
                          - (if backs s sender x then paymentsTotal ps + fee t else 0)
                          + recipientShare s recipient t x)"
    using s1(3) s2(3) s3(3)
    by (simp add: pb recipientShare_onlyVoteBalances [OF o2] signed_def)
  show ?thesis
    using run onlyVoteBalances_trans [OF o2 s3(2)] net by blast
qed

lemma updateSenderDelegate_generic:
  assumes "\<not> (type t = HtlcClaim \<and> typeGroup t = Core)"
    "\<not> (type t = MultiPayment \<and> typeGroup t = Core)" "delegateKnown s sender"
  shows "\<exists>s'. updateSenderDelegate s sender t lt revert = Done s'
           \<and> onlyVoteBalances s s'
           \<and> (\<forall>x. getVoteBalance s' x
                 = getVoteBalance s x
                   + (if backs s sender x then signed revert (- senderCharge t) else 0))"
proof (cases "vote (wallets s sender)")
  case None
  then show ?thesis
    by (simp add: updateSenderDelegate_def onlyVoteBalances_refl backs_def)
next
  case (Some pk)
  then obtain d where d: "publicKeys s pk = Some d"
    using assms(3) by (auto simp: delegateKnown_def)
  have "updateSenderDelegate s sender t lt revert
          = Done (setVoteBalance s d (getVoteBalance s d + signed revert (- senderCharge t)))"
    using assms(1,2) Some d
    by (auto simp: updateSenderDelegate_def findByPublicKey_def signed_def Let_def
        senderCharge_def algebra_simps)
  then show ?thesis
    using adjust_visible [OF d Some] by (simp add: onlyVoteBalances_set)
qed

lemma updateVoteBalances_no_recipient:
  assumes "\<not> (type t = Vote \<and> typeGroup t = Core)" "\<not> (type t = HtlcClaim \<and> typeGroup t = Core)"
    "\<not> (type t = MultiPayment \<and> typeGroup t = Core)" "delegateKnown s sender"
  shows "\<exists>s'. updateVoteBalances s sender None t lw lt revert = Done s'
           \<and> onlyVoteBalances s s'
           \<and> (\<forall>x. getVoteBalance s' x
                 = getVoteBalance s x
                   + (if backs s sender x then signed revert (- senderCharge t) else 0))"
proof -
  from updateSenderDelegate_generic [OF assms(2,3,4), where lt = lt and revert = revert]
  obtain s' where s': "updateSenderDelegate s sender t lt revert = Done s'"
    "onlyVoteBalances s s'"
    "\<forall>x. getVoteBalance s' x
       = getVoteBalance s x + (if backs s sender x then signed revert (- senderCharge t) else 0)"
    by blast
  have "updateVoteBalances s sender None t lw lt revert = Done s'"
    using assms(1,2,3) s'(1)
    by (auto simp: updateVoteBalances_def andThen_def updateLockWalletDelegate_def
        updateMultiPayment_def updateRecipientDelegate_def)
  then show ?thesis using s'(2,3) by blast
qed

section \<open>Loops over transactions\<close>







section \<open>Credit and debit of the producer\<close>



section \<open>The production counter\<close>

lemma bitLength_le: "n < 2 ^ k \<Longrightarrow> bitLength n \<le> k"
proof (induction k arbitrary: n)
  case 0
  then show ?case by (simp add: bitLength.simps)
next
  case (Suc k)
  show ?case
  proof (cases "n \<le> 0")
    case True
    then show ?thesis by (simp add: bitLength.simps)
  next
    case False
    have "n div 2 < 2 ^ k" using Suc.prems by auto
    from Suc.IH [OF this] show ?thesis using False by (subst bitLength.simps) simp
  qed
qed

lemma bitLength_eq: "2 ^ k \<le> n \<Longrightarrow> n < 2 ^ Suc k \<Longrightarrow> bitLength n = Suc k"
proof (induction k arbitrary: n)
  case 0
  then have "n = 1" by simp
  then show ?case by (simp add: bitLength.simps)
next
  case (Suc k)
  have "(0::int) < 2 ^ Suc k" by simp
  then have n: "\<not> n \<le> 0" using Suc.prems(1) by linarith
  have "2 ^ k \<le> n div 2" "n div 2 < 2 ^ Suc k" using Suc.prems by auto
  from Suc.IH [OF this] show ?case using n by (subst bitLength.simps) simp
qed

lemma roundToDouble_exact: "\<bar>x\<bar> \<le> 2 ^ 53 \<Longrightarrow> roundToDouble x = x"
proof (cases "\<bar>x\<bar> < 2 ^ 53")
  case True
  from bitLength_le [OF this] show ?thesis by (simp add: roundToDouble_def)
next
  case False
  assume "\<bar>x\<bar> \<le> 2 ^ 53"
  with False have a: "\<bar>x\<bar> = 2 ^ 53" by simp
  have "bitLength \<bar>x\<bar> = Suc 53"
    by (rule bitLength_eq) (simp_all add: a)
  moreover have "x = 2 ^ 53 \<or> x = - (2 ^ 53)" using a by auto
  ultimately show ?thesis by (auto simp: roundToDouble_def Let_def)
qed

lemma jsIncrement_exact: "- (2 ^ 53) \<le> n \<Longrightarrow> n < 2 ^ 53 \<Longrightarrow> jsIncrement n = n + 1"
  unfolding jsIncrement_def by (rule roundToDouble_exact) simp

lemma jsDecrement_exact: "- (2 ^ 53) < n \<Longrightarrow> n \<le> 2 ^ 53 \<Longrightarrow> jsDecrement n = n - 1"
  unfolding jsDecrement_def by (rule roundToDouble_exact) simp

lemma js_round_trip:
  "- (2 ^ 53) \<le> n \<Longrightarrow> n < 2 ^ 53 \<Longrightarrow> jsDecrement (jsIncrement n) = n"
  by (simp add: jsIncrement_exact jsDecrement_exact)

lemma js_back_trip:
  "- (2 ^ 53) < n \<Longrightarrow> n \<le> 2 ^ 53 \<Longrightarrow> jsIncrement (jsDecrement n) = n"
  by (simp add: jsIncrement_exact jsDecrement_exact)

lemma jsIncrement_stuck: "jsIncrement 9007199254740992 = 9007199254740992"
proof -
  have "bitLength \<bar>9007199254740992 + 1\<bar> = Suc 53"
    by (rule bitLength_eq) simp_all
  then show ?thesis by (simp add: jsIncrement_def roundToDouble_def Let_def)
qed



section \<open>Ledgers that differ in balances, vote balances and statistics\<close>

lemma foreign_fields:
  assumes "foreign s r"
  shows "addresses r = addresses s" "publicKeys r = publicKeys s" "locks r = locks s"
    "faults r = faults s" "vote (wallets r a) = vote (wallets s a)"
    "htlc_locks (wallets r a) = htlc_locks (wallets s a)"
    "publicKey (wallets r a) = publicKey (wallets s a)"
    "address (wallets r a) = address (wallets s a)"
proof -
  have e: "r = s\<lparr>wallets := (\<lambda>a. (wallets s a)\<lparr>balance := balance (wallets r a),
              voteBalance := voteBalance (wallets r a), delegate := delegate (wallets r a)\<rparr>)\<rparr>"
    using assms by (simp add: foreign_def)
  show "addresses r = addresses s" by (subst e) simp
  show "publicKeys r = publicKeys s" by (subst e) simp
  show "locks r = locks s" by (subst e) simp
  show "faults r = faults s" by (subst e) simp
  have w: "wallets r a = (wallets s a)\<lparr>balance := balance (wallets r a),
              voteBalance := voteBalance (wallets r a), delegate := delegate (wallets r a)\<rparr>"
    by (subst e) simp
  show "vote (wallets r a) = vote (wallets s a)" by (subst w) simp
  show "htlc_locks (wallets r a) = htlc_locks (wallets s a)" by (subst w) simp
  show "publicKey (wallets r a) = publicKey (wallets s a)" by (subst w) simp
  show "address (wallets r a) = address (wallets s a)" by (subst w) simp
qed

lemma foreignI:
  assumes "addresses r = addresses s" "publicKeys r = publicKeys s" "locks r = locks s"
    "faults r = faults s" "\<And>a. vote (wallets r a) = vote (wallets s a)"
    "\<And>a. htlc_locks (wallets r a) = htlc_locks (wallets s a)"
    "\<And>a. publicKey (wallets r a) = publicKey (wallets s a)"
    "\<And>a. address (wallets r a) = address (wallets s a)"
  shows "foreign s r"
  unfolding foreign_def
proof (rule ledger.equality)
  show "wallets r = wallets (s\<lparr>wallets := (\<lambda>a. (wallets s a)\<lparr>balance := balance (wallets r a),
              voteBalance := voteBalance (wallets r a), delegate := delegate (wallets r a)\<rparr>)\<rparr>)"
  proof (rule ext)
    fix a
    show "wallets r a = wallets (s\<lparr>wallets := (\<lambda>a. (wallets s a)\<lparr>balance := balance (wallets r a),
              voteBalance := voteBalance (wallets r a), delegate := delegate (wallets r a)\<rparr>)\<rparr>) a"
      by (rule Wallet.equality) (simp_all add: assms)
  qed
qed (simp_all add: assms)



lemma foreign_sym: "foreign s r \<Longrightarrow> foreign r s"
  by (rule foreignI) (simp_all add: foreign_fields)












lemma setVoteBalance_wallets:
  "voteBalance (wallets (setVoteBalance s d v) d) = Some v"
  "x \<noteq> d \<Longrightarrow> wallets (setVoteBalance s d v) x = wallets s x"
  by (simp_all add: setVoteBalance_def)


section \<open>Opposite vote-balance updates\<close>














section \<open>Undoing and redoing transactions\<close>





lemma findByPublicKey_cong: "publicKeys r = publicKeys s \<Longrightarrow> findByPublicKey r pk = findByPublicKey s pk"
  by (simp add: findByPublicKey_def)









section \<open>The effect of the credit and of the debit\<close>






section \<open>The example handler\<close>














section \<open>Vote transactions\<close>

text \<open>
  Claim C3. For a vote transaction (type Vote, group Core) whose first vote is \<open>v\<close>,
  the target validator is the wallet of the public key after the sign. Applying sets its
  vote balance to the old value plus the sender's balance when \<open>v\<close> starts with a plus
  sign, and to the old value minus the sender's balance plus the fee otherwise; reverting
  sets it to the old value minus the sender's balance less the fee for a plus sign, and to
  the old value plus the sender's balance otherwise. In both directions the balance is
  read from the ledger \<open>s1\<close> that the effect handler returned, so the update runs after
  the handler has changed the sender's balance.
\<close>

theorem vote_transaction_vote_balance:
  "type t = Vote \<Longrightarrow> typeGroup t = Core \<Longrightarrow> asset_votes t = Some (v # vs) \<Longrightarrow>
   senderPublicKey t = Some spk \<Longrightarrow>
   (\<forall>s1 sender d.
      handler_apply (registry E t) t s = Done s1 \<and> findByPublicKey s1 spk = Inr sender
        \<and> findByPublicKey s1 (drop 1 v) = Inr d \<longrightarrow>
      applyTransaction E t s = Done (setVoteBalance s1 d
        (if startsWithPlus v then getVoteBalance s1 d + balance (wallets s1 sender)
         else getVoteBalance s1 d - (balance (wallets s1 sender) + fee t)))) \<and>
   (\<forall>s1 sender d.
      findByPublicKey s spk = Inr sender \<and> handler_revert (registry E t) t s = Done s1
        \<and> findByPublicKey s1 (drop 1 v) = Inr d \<longrightarrow>
      revertTransaction E t s = Done (setVoteBalance s1 d
        (if startsWithPlus v then getVoteBalance s1 d - (balance (wallets s1 sender) - fee t)
         else getVoteBalance s1 d + balance (wallets s1 sender))))"
  by (auto simp: applyTransaction_def revertTransaction_def lookupLock_def andThen_def
      applyVoteBalances_def revertVoteBalances_def updateVoteBalances_def updateVoteTarget_def
      lookupRecipient_def hasByAddress_def findByAddress_def Let_def
      split: option.splits sum.splits)

theorem vote_transaction_vote_balance_witness:
  "type exampleVote = Vote \<and> typeGroup exampleVote = Core
   \<and> asset_votes exampleVote = Some [''+dora''] \<and> senderPublicKey exampleVote = Some ''alice''
   \<and> balance (wallets (ledgerOf (applyTransaction exampleEnv exampleVote exampleLedger))
        ''Aalice'') = 990
   \<and> getVoteBalance (ledgerOf (applyTransaction exampleEnv exampleVote exampleLedger))
        ''Adora'' = 1990
   \<and> getVoteBalance (ledgerOf (revertTransaction exampleEnv exampleVote
        (ledgerOf (applyTransaction exampleEnv exampleVote exampleLedger)))) ''Adora'' = 1000"
proof -
  have h: "type exampleVote = Vote" "typeGroup exampleVote = Core"
    "asset_votes exampleVote = Some [''+dora'']" "senderPublicKey exampleVote = Some ''alice''"
    by (simp_all add: exampleVote_def)
  note c = vote_transaction_vote_balance [OF h, of exampleEnv]
  define s1 where "s1 = updateWallet exampleLedger ''Aalice'' (\<lambda>w. w\<lparr>balance := 990\<rparr>)"
  have a1: "handler_apply (registry exampleEnv exampleVote) exampleVote exampleLedger = Done s1"
    by (simp add: example_defs s1_def)
  have a2: "findByPublicKey s1 ''alice'' = Inr ''Aalice''"
    "findByPublicKey s1 (drop 1 ''+dora'') = Inr ''Adora''"
    by (simp_all add: example_defs s1_def)
  have ap: "applyTransaction exampleEnv exampleVote exampleLedger
              = Done (setVoteBalance s1 ''Adora'' 1990)"
    using c [of exampleLedger, THEN conjunct1, rule_format, of s1 "''Aalice''" "''Adora''"] a1 a2
    by (simp add: startsWithPlus_def getVoteBalance_def s1_def example_defs)
  define s2 where "s2 = setVoteBalance s1 ''Adora'' 1990"
  have b1: "findByPublicKey s2 ''alice'' = Inr ''Aalice''"
    by (simp add: s2_def setVoteBalance_def s1_def example_defs)
  define s3 where "s3 = updateWallet s2 ''Aalice'' (\<lambda>w. w\<lparr>balance := 1000\<rparr>)"
  have b2: "handler_revert (registry exampleEnv exampleVote) exampleVote s2 = Done s3"
    by (simp add: s3_def s2_def setVoteBalance_def s1_def example_defs)
  have b3: "findByPublicKey s3 (drop 1 ''+dora'') = Inr ''Adora''"
    by (simp add: s3_def s2_def setVoteBalance_def s1_def example_defs)
  have rv: "revertTransaction exampleEnv exampleVote s2 = Done (setVoteBalance s3 ''Adora'' 1000)"
    using c [of s2, THEN conjunct2, rule_format, of "''Aalice''" s3 "''Adora''"] b1 b2 b3
    by (simp add: startsWithPlus_def getVoteBalance_def s3_def s2_def setVoteBalance_def s1_def
        example_defs)
  show ?thesis
    using h by (simp add: ap rv s2_def [symmetric] ledgerOf_def)
      (simp add: getVoteBalance_def s3_def s2_def setVoteBalance_def s1_def example_defs)
qed

text \<open>
  Claim C10. On a vote transaction (type Vote, group Core) whose votes are \<open>v # vs\<close>,
  the vote-balance update reads only \<open>v\<close>. The affected validator is the wallet of
  the public key that follows the sign of \<open>v\<close>: when no such wallet is in the
  ledger the update throws and leaves the ledger as it was; when it is the wallet
  \<open>d\<close>, the update succeeds, the vote balance of \<open>d\<close> becomes the value that
  the sign of \<open>v\<close>, the direction, the sender's balance and the fee determine, and
  no other wallet changes, so the entries \<open>vs\<close> change no vote balance. The outcome
  is the outcome for the single vote \<open>v\<close>.
\<close>

theorem vote_only_first_entry:
  "type t = Vote \<Longrightarrow> typeGroup t = Core \<Longrightarrow> asset_votes t = Some (v # vs) \<Longrightarrow>
   (\<forall>e. findByPublicKey s (drop 1 v) = Inl e \<longrightarrow>
      updateVoteBalances s sender recipient t lockWallet lockTransaction revert = Threw e s) \<and>
   (\<forall>d. findByPublicKey s (drop 1 v) = Inr d \<longrightarrow>
      (\<exists>s'. updateVoteBalances s sender recipient t lockWallet lockTransaction revert = Done s'
         \<and> voteBalance (wallets s' d)
             = Some (if startsWithPlus v
                     then (if revert
                           then getVoteBalance s d - (balance (wallets s sender) - fee t)
                           else getVoteBalance s d + balance (wallets s sender))
                     else (if revert
                           then getVoteBalance s d + balance (wallets s sender)
                           else getVoteBalance s d - (balance (wallets s sender) + fee t)))
         \<and> (\<forall>x. x \<noteq> d \<longrightarrow> wallets s' x = wallets s x)
         \<and> onlyVoteBalances s s')) \<and>
   updateVoteBalances s sender recipient t lockWallet lockTransaction revert
     = updateVoteBalances s sender recipient (t\<lparr>asset_votes := Some [v]\<rparr>)
         lockWallet lockTransaction revert"
  by (auto simp: updateVoteBalances_def updateVoteTarget_def Let_def onlyVoteBalances_set
      setVoteBalance_wallets split: sum.splits)

theorem vote_only_first_entry_witness:
  "type exampleVote = Vote \<and> typeGroup exampleVote = Core
   \<and> findByPublicKey exampleLedger (drop 1 ''+dora'') = Inr ''Adora''
   \<and> thrown (updateVoteBalances exampleLedger ''Aalice'' None
        (exampleVote\<lparr>asset_votes := Some [''+dora'', ''-eve'', ''+bob'']\<rparr>) None None False)
       = None
   \<and> voteBalance (wallets (ledgerOf (updateVoteBalances exampleLedger ''Aalice'' None
        (exampleVote\<lparr>asset_votes := Some [''+dora'', ''-eve'', ''+bob'']\<rparr>) None None False))
        ''Adora'') = Some 2000
   \<and> voteBalance (wallets (ledgerOf (updateVoteBalances exampleLedger ''Aalice'' None
        (exampleVote\<lparr>asset_votes := Some [''+dora'', ''-eve'', ''+bob'']\<rparr>) None None False))
        ''Aeve'') = Some 500
   \<and> voteBalance (wallets (ledgerOf (updateVoteBalances exampleLedger ''Aalice'' None
        (exampleVote\<lparr>asset_votes := Some [''+dora'', ''-eve'', ''+bob'']\<rparr>) None None False))
        ''Abob'') = None"
proof -
  define t where "t = exampleVote\<lparr>asset_votes := Some [''+dora'', ''-eve'', ''+bob'']\<rparr>"
  have h: "type t = Vote" "typeGroup t = Core"
    "asset_votes t = Some (''+dora'' # [''-eve'', ''+bob''])"
    by (simp_all add: t_def exampleVote_def)
  have d: "findByPublicKey exampleLedger (drop 1 ''+dora'') = Inr ''Adora''"
    by (simp add: example_defs)
  note c = vote_only_first_entry [OF h, where s = exampleLedger and sender = "''Aalice''"
      and recipient = None and lockWallet = None and lockTransaction = None and revert = False]
  from c [THEN conjunct2, THEN conjunct1, rule_format, OF d] obtain s' where
    s': "updateVoteBalances exampleLedger ''Aalice'' None t None None False = Done s'"
      "voteBalance (wallets s' ''Adora'')
         = Some (if startsWithPlus ''+dora''
                 then (if False
                       then getVoteBalance exampleLedger ''Adora''
                              - (balance (wallets exampleLedger ''Aalice'') - fee t)
                       else getVoteBalance exampleLedger ''Adora''
                              + balance (wallets exampleLedger ''Aalice''))
                 else (if False
                       then getVoteBalance exampleLedger ''Adora''
                              + balance (wallets exampleLedger ''Aalice'')
                       else getVoteBalance exampleLedger ''Adora''
                              - (balance (wallets exampleLedger ''Aalice'') + fee t)))"
      "\<forall>x. x \<noteq> ''Adora'' \<longrightarrow> wallets s' x = wallets exampleLedger x"
    by blast
  have v: "voteBalance (wallets s' ''Adora'') = Some 2000"
    using s'(2) by (simp add: startsWithPlus_def getVoteBalance_def example_defs)
  have o: "voteBalance (wallets s' ''Aeve'') = Some 500" "voteBalance (wallets s' ''Abob'') = None"
    using s'(3) by (simp_all add: example_defs)
  have e: "type exampleVote = Vote" "typeGroup exampleVote = Core"
    by (simp_all add: exampleVote_def)
  show ?thesis
    using e d v o by (simp add: t_def [symmetric] s'(1) thrown_def ledgerOf_def)
qed

section \<open>The producer's credit\<close>

text \<open>
  Claim C6, as amended. When the producer's wallet \<open>d\<close> is found, every transaction
  of the block applies (leaving the ledger \<open>s1\<close>) and \<open>d\<close> carries the
  validator statistics \<open>st\<close>: if \<open>d\<close> matches the block's producer neither by
  public key nor by derived address, \<open>applyBlock\<close> returns \<open>s1\<close> unchanged; if
  it matches, the balance of \<open>d\<close> grows by reward plus total fee, its forged fees by
  the total fee, its forged rewards by the reward, its last block is the block, and its
  produced-block counter is incremented as a JavaScript number; and if \<open>d\<close> backs a
  validator, that validator's vote balance grows by reward plus total fee as well. The
  increment of the counter is an increment by one as long as the counter is below
  \<open>2 ^ 53\<close> (and not below \<open>- (2 ^ 53)\<close>).
\<close>

theorem applyBlock_credits_producer:
  "lookupGenerator E b s = (Inr (Some d), s0) \<Longrightarrow>
   applyTransactions E (transactions b) [] s0 = (Done s1, ap) \<Longrightarrow>
   delegate (wallets s1 d) = Some st \<Longrightarrow>
   (let increase = reward (data b) + totalFee (data b);
        paid = updateWallet s1 d (\<lambda>w. w\<lparr>balance := balance w + reward (data b) + totalFee (data b),
          delegate := Some (st\<lparr>producedBlocks := jsIncrement (producedBlocks st),
                               forgedFees := forgedFees st + totalFee (data b),
                               forgedRewards := forgedRewards st + reward (data b),
                               lastBlock := Some (data b)\<rparr>)\<rparr>)
    in (\<not> (Some (generatorPublicKey (data b)) = publicKey (wallets s1 d)
            \<or> fromPublicKey E (generatorPublicKey (data b)) = address (wallets s1 d)) \<longrightarrow>
          applyBlock E b s = Done s1) \<and>
       ((Some (generatorPublicKey (data b)) = publicKey (wallets s1 d)
            \<or> fromPublicKey E (generatorPublicKey (data b)) = address (wallets s1 d)) \<longrightarrow>
          (vote (wallets s1 d) = None \<longrightarrow> applyBlock E b s = Done paid) \<and>
          (\<forall>pk votedDelegate vb.
             vote (wallets s1 d) = Some pk \<and> findByPublicKey s1 pk = Inr votedDelegate
               \<and> voteBalance (wallets s1 votedDelegate) = Some vb \<longrightarrow>
             applyBlock E b s = Done (setVoteBalance paid votedDelegate (vb + increase)))) \<and>
       (- (2 ^ 53) \<le> producedBlocks st \<and> producedBlocks st < 2 ^ 53 \<longrightarrow>
          jsIncrement (producedBlocks st) = producedBlocks st + 1))"
  apply (simp add: applyBlock_def applyBlockTry_def creditDelegate_def applyBlockToDelegate_def
      Let_def jsIncrement_exact)
  apply (auto simp: updateVotedDelegate_def updateWallet_def findByPublicKey_def
      setVoteBalance_def split: option.splits)
  done

theorem applyBlock_credits_producer_witness:
  "balance (wallets (ledgerOf (applyBlock exampleEnv exampleBlock exampleLedger)) ''Adora'') = 210
   \<and> voteBalance (wallets (ledgerOf (applyBlock exampleEnv exampleBlock exampleLedger)) ''Adora'')
       = Some 1210
   \<and> delegate (wallets (ledgerOf (applyBlock exampleEnv exampleBlock exampleLedger)) ''Adora'')
       = Some \<lparr>producedBlocks = 2, forgedFees = 10, forgedRewards = 200,
               lastBlock = Some (data exampleBlock)\<rparr>"
proof -
  define s1 where
    "s1 = setVoteBalance (moveFunds 1 exampleTransfer ''Abob'' exampleLedger) ''Aeve'' 390"
  define st where "st = \<lparr>producedBlocks = 1, forgedFees = 0, forgedRewards = 0,
                         lastBlock = Some exampleGenesis\<rparr>"
  have g: "lookupGenerator exampleEnv exampleBlock exampleLedger
             = (Inr (Some ''Adora''), exampleLedger)"
    by (simp add: lookupGenerator_def has_def Let_def example_defs)
  have t: "applyTransactions exampleEnv (transactions exampleBlock) [] exampleLedger
             = (Done s1, [exampleTransfer])"
    by (simp add: s1_def engine_defs example_defs)
  have d: "delegate (wallets s1 ''Adora'') = Some st"
    by (simp add: s1_def st_def engine_defs example_defs)
  have v: "vote (wallets s1 ''Adora'') = Some ''dora''"
    "findByPublicKey s1 ''dora'' = Inr ''Adora''"
    "voteBalance (wallets s1 ''Adora'') = Some 1000"
    "Some (generatorPublicKey (data exampleBlock)) = publicKey (wallets s1 ''Adora'')"
    by (simp_all add: s1_def engine_defs example_defs)
  have j: "jsIncrement (producedBlocks st) = 2"
    using jsIncrement_exact [of 1] by (simp add: st_def)
  show ?thesis
    using applyBlock_credits_producer [OF g t d] v
    apply (simp add: Let_def ledgerOf_def j)
    apply (simp add: s1_def st_def engine_defs example_defs)
    done
qed

text \<open>
  The claim as stated fails for the counter: a validator that has produced \<open>2 ^ 53\<close>
  blocks has the same counter after producing one more, because \<open>2 ^ 53 + 1\<close> is not
  a double and the sum is rounded to \<open>2 ^ 53\<close>; the rest of the credit is made.
\<close>

theorem applyBlock_credits_producer_counterexample:
  "thrown (applyBlock exampleEnv exampleEmptyBlock exampleVeteran) = None
   \<and> map_option producedBlocks (delegate (wallets exampleVeteran ''Adora''))
       = Some 9007199254740992
   \<and> map_option producedBlocks
        (delegate (wallets (ledgerOf (applyBlock exampleEnv exampleEmptyBlock exampleVeteran))
           ''Adora''))
       = Some 9007199254740992
   \<and> map_option forgedRewards
        (delegate (wallets (ledgerOf (applyBlock exampleEnv exampleEmptyBlock exampleVeteran))
           ''Adora''))
       = Some 200"
  by (simp add: thrown_def ledgerOf_def block_defs has_def Let_def setVoteBalance_def
      exampleEmptyBlock_def exampleVeteran_def example_defs jsIncrement_stuck)

section \<open>Timed-lock claims and multi-payments\<close>

text \<open>
  Claim C4. For a timed-lock claim (type HtlcClaim, group Core) whose lock owner \<open>lw\<close>
  is found through the lock index and whose lock record, read from the owner's
  \<^verbatim>\<open>htlc.locks\<close>, carries the amount \<open>la\<close>: when the voted delegates of the
  claimer, of the lock owner and of the recipient are in the ledger, applying succeeds,
  changes vote balances only, and every wallet \<open>x\<close> ends with its vote balance
  increased by \<open>la - fee\<close> if the claimer backs \<open>x\<close> and decreased by \<open>la\<close> if the
  lock owner backs \<open>x\<close> (plus the recipient's share, when the claim names a known
  recipient); reverting changes every vote balance by the exact opposite amount. The
  owner and the record are looked up before the handler runs when applying and after it
  when reverting.
\<close>

theorem htlc_claim_vote_balances:
  "type t = HtlcClaim \<Longrightarrow> typeGroup t = Core \<Longrightarrow> asset_claim t = Some lockId \<Longrightarrow>
   senderPublicKey t = Some spk \<Longrightarrow>
   (\<forall>lw la s1 claimer recipient.
      locks s lockId = Some lw \<and> map_of (htlc_locks (wallets s lw)) lockId = Some la
        \<and> handler_apply (registry E t) t s = Done s1
        \<and> findByPublicKey s1 spk = Inr claimer \<and> lookupRecipient s1 t = Inr recipient
        \<and> delegateKnown s1 claimer \<and> delegateKnown s1 lw \<and> recipientKnown s1 recipient \<longrightarrow>
      (\<exists>s'. applyTransaction E t s = Done s' \<and> onlyVoteBalances s1 s'
         \<and> (\<forall>x. getVoteBalance s' x
               = getVoteBalance s1 x
                 + ((if backs s1 claimer x then la - fee t else 0)
                    - (if backs s1 lw x then la else 0)
                    + recipientShare s1 recipient t x)))) \<and>
   (\<forall>lw la s1 claimer recipient.
      findByPublicKey s spk = Inr claimer \<and> lookupRecipient s t = Inr recipient
        \<and> handler_revert (registry E t) t s = Done s1
        \<and> locks s1 lockId = Some lw \<and> map_of (htlc_locks (wallets s1 lw)) lockId = Some la
        \<and> delegateKnown s1 claimer \<and> delegateKnown s1 lw \<and> recipientKnown s1 recipient \<longrightarrow>
      (\<exists>s'. revertTransaction E t s = Done s' \<and> onlyVoteBalances s1 s'
         \<and> (\<forall>x. getVoteBalance s' x
               = getVoteBalance s1 x
                 - ((if backs s1 claimer x then la - fee t else 0)
                    - (if backs s1 lw x then la else 0)
                    + recipientShare s1 recipient t x))))"
proof (intro conjI allI impI)
  fix lw la s1 claimer recipient
  assume t: "type t = HtlcClaim" "typeGroup t = Core" "asset_claim t = Some lockId"
    "senderPublicKey t = Some spk"
  assume a: "locks s lockId = Some lw \<and> map_of (htlc_locks (wallets s lw)) lockId = Some la
        \<and> handler_apply (registry E t) t s = Done s1
        \<and> findByPublicKey s1 spk = Inr claimer \<and> lookupRecipient s1 t = Inr recipient
        \<and> delegateKnown s1 claimer \<and> delegateKnown s1 lw \<and> recipientKnown s1 recipient"
  have run: "applyTransaction E t s
               = updateVoteBalances s1 claimer recipient t (Some lw) (Some la) False"
    using t a
    by (simp add: applyTransaction_def lookupLock_def findByIndexLocks_def andThen_def
        applyVoteBalances_def)
  from updateVoteBalances_claim [OF t(1,2), where revert = False and la = la] a
  obtain s' where r: "updateVoteBalances s1 claimer recipient t (Some lw) (Some la) False = Done s'" "onlyVoteBalances s1 s'"
    "\<forall>x. getVoteBalance s' x = getVoteBalance s1 x + signed False ((if backs s1 claimer x then la - fee t else 0) - (if backs s1 lw x then la else 0) + recipientShare s1 recipient t x)"
    by blast
  then show "\<exists>s'. applyTransaction E t s = Done s' \<and> onlyVoteBalances s1 s'
         \<and> (\<forall>x. getVoteBalance s' x
               = getVoteBalance s1 x
                 + ((if backs s1 claimer x then la - fee t else 0)
                    - (if backs s1 lw x then la else 0)
                    + recipientShare s1 recipient t x))"
    by (simp add: run signed_def del: ex_simps all_simps)
next
  fix lw la s1 claimer recipient
  assume t: "type t = HtlcClaim" "typeGroup t = Core" "asset_claim t = Some lockId"
    "senderPublicKey t = Some spk"
  assume a: "findByPublicKey s spk = Inr claimer \<and> lookupRecipient s t = Inr recipient
        \<and> handler_revert (registry E t) t s = Done s1
        \<and> locks s1 lockId = Some lw \<and> map_of (htlc_locks (wallets s1 lw)) lockId = Some la
        \<and> delegateKnown s1 claimer \<and> delegateKnown s1 lw \<and> recipientKnown s1 recipient"
  have run: "revertTransaction E t s
               = updateVoteBalances s1 claimer recipient t (Some lw) (Some la) True"
    using t a
    by (simp add: revertTransaction_def lookupLock_def findByIndexLocks_def andThen_def
        revertVoteBalances_def)
  from updateVoteBalances_claim [OF t(1,2), where revert = True and la = la] a
  obtain s' where r: "updateVoteBalances s1 claimer recipient t (Some lw) (Some la) True = Done s'" "onlyVoteBalances s1 s'"
    "\<forall>x. getVoteBalance s' x = getVoteBalance s1 x + signed True ((if backs s1 claimer x then la - fee t else 0) - (if backs s1 lw x then la else 0) + recipientShare s1 recipient t x)"
    by blast
  then show "\<exists>s'. revertTransaction E t s = Done s' \<and> onlyVoteBalances s1 s'
         \<and> (\<forall>x. getVoteBalance s' x
               = getVoteBalance s1 x
                 - ((if backs s1 claimer x then la - fee t else 0)
                    - (if backs s1 lw x then la else 0)
                    + recipientShare s1 recipient t x))"
    by (simp add: run signed_def del: ex_simps all_simps)
qed

theorem htlc_claim_vote_balances_witness:
  "getVoteBalance (ledgerOf (applyTransaction exampleEnv exampleClaim exampleLocks)) ''Adora'' = 1395
   \<and> getVoteBalance (ledgerOf (applyTransaction exampleEnv exampleClaim exampleLocks)) ''Aeve'' = 100
   \<and> getVoteBalance (ledgerOf (revertTransaction exampleEnv exampleClaim exampleLocks)) ''Adora'' = 605
   \<and> getVoteBalance (ledgerOf (revertTransaction exampleEnv exampleClaim exampleLocks)) ''Aeve'' = 900"
proof -
  have h: "type exampleClaim = HtlcClaim" "typeGroup exampleClaim = Core"
    "asset_claim exampleClaim = Some ''lock1''" "senderPublicKey exampleClaim = Some ''alice''"
    by (simp_all add: exampleClaim_def)
  note c = htlc_claim_vote_balances [OF h, of exampleLocks exampleEnv]
  have f: "fee exampleClaim = 5" by (simp add: exampleClaim_def)
  have l: "locks exampleLocks ''lock1'' = Some ''Abob''"
    "map_of (htlc_locks (wallets exampleLocks ''Abob'')) ''lock1'' = Some 400"
    "findByPublicKey exampleLocks ''alice'' = Inr ''Aalice''"
    "lookupRecipient exampleLocks exampleClaim = Inr None"
    by (simp_all add: exampleLocks_def exampleClaim_def lookupRecipient_def example_defs)
  have facts: "locks (moveFunds k exampleClaim ''Aalice'' exampleLocks) ''lock1'' = Some ''Abob''"
    "map_of (htlc_locks (wallets (moveFunds k exampleClaim ''Aalice'' exampleLocks) ''Abob''))
       ''lock1'' = Some 400"
    "findByPublicKey (moveFunds k exampleClaim ''Aalice'' exampleLocks) ''alice'' = Inr ''Aalice''"
    "lookupRecipient (moveFunds k exampleClaim ''Aalice'' exampleLocks) exampleClaim = Inr None"
    "delegateKnown (moveFunds k exampleClaim ''Aalice'' exampleLocks) ''Aalice''"
    "delegateKnown (moveFunds k exampleClaim ''Aalice'' exampleLocks) ''Abob''"
    "recipientKnown (moveFunds k exampleClaim ''Aalice'' exampleLocks) None"
    "backs (moveFunds k exampleClaim ''Aalice'' exampleLocks) ''Aalice'' ''Adora''"
    "\<not> backs (moveFunds k exampleClaim ''Aalice'' exampleLocks) ''Aalice'' ''Aeve''"
    "\<not> backs (moveFunds k exampleClaim ''Aalice'' exampleLocks) ''Abob'' ''Adora''"
    "backs (moveFunds k exampleClaim ''Aalice'' exampleLocks) ''Abob'' ''Aeve''"
    "recipientShare (moveFunds k exampleClaim ''Aalice'' exampleLocks) None exampleClaim x = 0"
    "getVoteBalance (moveFunds k exampleClaim ''Aalice'' exampleLocks) ''Adora'' = 1000"
    "getVoteBalance (moveFunds k exampleClaim ''Aalice'' exampleLocks) ''Aeve'' = 500" for k x
    by (simp_all add: exampleLocks_def exampleClaim_def lookupRecipient_def getVoteBalance_def
        notion_defs example_defs)
  have ha: "handler_apply (registry exampleEnv exampleClaim) exampleClaim exampleLocks
              = Done (moveFunds 1 exampleClaim ''Aalice'' exampleLocks)"
    by (simp add: exampleLocks_def exampleClaim_def exampleEnv_def exampleHandler_def
        exampleLedger_def exampleWallet_def)
  have hr: "handler_revert (registry exampleEnv exampleClaim) exampleClaim exampleLocks
              = Done (moveFunds (- 1) exampleClaim ''Aalice'' exampleLocks)"
    by (simp add: exampleLocks_def exampleClaim_def exampleEnv_def exampleHandler_def
        exampleLedger_def exampleWallet_def)
  from c [THEN conjunct1, rule_format, of "''Abob''" 400 _ "''Aalice''" None] l ha facts
  obtain a where
    a: "applyTransaction exampleEnv exampleClaim exampleLocks = Done a"
      "\<forall>x. getVoteBalance a x
         = getVoteBalance (moveFunds 1 exampleClaim ''Aalice'' exampleLocks) x
           + ((if backs (moveFunds 1 exampleClaim ''Aalice'' exampleLocks) ''Aalice'' x
               then 400 - fee exampleClaim else 0)
              - (if backs (moveFunds 1 exampleClaim ''Aalice'' exampleLocks) ''Abob'' x
                 then 400 else 0)
              + recipientShare (moveFunds 1 exampleClaim ''Aalice'' exampleLocks) None
                  exampleClaim x)"
    by blast
  from c [THEN conjunct2, rule_format, of "''Aalice''" None _ "''Abob''" 400] l hr facts
  obtain r where
    r: "revertTransaction exampleEnv exampleClaim exampleLocks = Done r"
      "\<forall>x. getVoteBalance r x
         = getVoteBalance (moveFunds (- 1) exampleClaim ''Aalice'' exampleLocks) x
           - ((if backs (moveFunds (- 1) exampleClaim ''Aalice'' exampleLocks) ''Aalice'' x
               then 400 - fee exampleClaim else 0)
              - (if backs (moveFunds (- 1) exampleClaim ''Aalice'' exampleLocks) ''Abob'' x
                 then 400 else 0)
              + recipientShare (moveFunds (- 1) exampleClaim ''Aalice'' exampleLocks) None
                  exampleClaim x)"
    by blast
  show ?thesis
    by (simp add: a r ledgerOf_def facts f)
qed

text \<open>
  Claim C5. For a multi-payment (type MultiPayment, group Core) with the payments
  \<open>ps\<close>: when every payment recipient is in the ledger and the voted delegates of the
  sender, of the payment recipients and of the recipient are in the ledger, applying
  succeeds, changes vote balances only, and every wallet \<open>x\<close> ends with its vote
  balance decreased by the sum of the payment amounts plus the fee if the sender backs
  \<open>x\<close>, and increased by the amount of every payment whose recipient backs \<open>x\<close>;
  the top-level amount enters only through the recipient's share. Reverting changes every
  vote balance by the exact opposite amount.
\<close>

theorem multi_payment_vote_balances:
  "type t = MultiPayment \<Longrightarrow> typeGroup t = Core \<Longrightarrow> asset_payments t = Some ps \<Longrightarrow>
   senderPublicKey t = Some spk \<Longrightarrow>
   (\<forall>s1 sender recipient.
      handler_apply (registry E t) t s = Done s1
        \<and> findByPublicKey s1 spk = Inr sender \<and> lookupRecipient s1 t = Inr recipient
        \<and> delegateKnown s1 sender \<and> recipientKnown s1 recipient
        \<and> list_all (\<lambda>p. item_recipientId p \<in> addresses s1
                          \<and> delegateKnown s1 (item_recipientId p)) ps \<longrightarrow>
      (\<exists>s'. applyTransaction E t s = Done s' \<and> onlyVoteBalances s1 s'
         \<and> (\<forall>x. getVoteBalance s' x
               = getVoteBalance s1 x
                 + (paymentsBacking s1 ps x
                    - (if backs s1 sender x then paymentsTotal ps + fee t else 0)
                    + recipientShare s1 recipient t x)))) \<and>
   (\<forall>s1 sender recipient.
      findByPublicKey s spk = Inr sender \<and> lookupRecipient s t = Inr recipient
        \<and> handler_revert (registry E t) t s = Done s1
        \<and> delegateKnown s1 sender \<and> recipientKnown s1 recipient
        \<and> list_all (\<lambda>p. item_recipientId p \<in> addresses s1
                          \<and> delegateKnown s1 (item_recipientId p)) ps \<longrightarrow>
      (\<exists>s'. revertTransaction E t s = Done s' \<and> onlyVoteBalances s1 s'
         \<and> (\<forall>x. getVoteBalance s' x
               = getVoteBalance s1 x
                 - (paymentsBacking s1 ps x
                    - (if backs s1 sender x then paymentsTotal ps + fee t else 0)
                    + recipientShare s1 recipient t x))))"
proof (intro conjI allI impI)
  fix s1 sender recipient
  assume t: "type t = MultiPayment" "typeGroup t = Core" "asset_payments t = Some ps"
    "senderPublicKey t = Some spk"
  assume a: "handler_apply (registry E t) t s = Done s1
        \<and> findByPublicKey s1 spk = Inr sender \<and> lookupRecipient s1 t = Inr recipient
        \<and> delegateKnown s1 sender \<and> recipientKnown s1 recipient
        \<and> list_all (\<lambda>p. item_recipientId p \<in> addresses s1
                          \<and> delegateKnown s1 (item_recipientId p)) ps"
  have run: "applyTransaction E t s = updateVoteBalances s1 sender recipient t None None False"
    using t a
    by (simp add: applyTransaction_def lookupLock_def andThen_def applyVoteBalances_def)
  from updateVoteBalances_payments [OF t(1,2,3), where revert = False and lw = None and lt = None] a
  obtain s' where r: "updateVoteBalances s1 sender recipient t None None False = Done s'" "onlyVoteBalances s1 s'"
    "\<forall>x. getVoteBalance s' x = getVoteBalance s1 x + signed False (paymentsBacking s1 ps x - (if backs s1 sender x then paymentsTotal ps + fee t else 0) + recipientShare s1 recipient t x)"
    by blast
  then show "\<exists>s'. applyTransaction E t s = Done s' \<and> onlyVoteBalances s1 s'
         \<and> (\<forall>x. getVoteBalance s' x
               = getVoteBalance s1 x
                 + (paymentsBacking s1 ps x
                    - (if backs s1 sender x then paymentsTotal ps + fee t else 0)
                    + recipientShare s1 recipient t x))"
    by (simp add: run signed_def del: ex_simps all_simps)
next
  fix s1 sender recipient
  assume t: "type t = MultiPayment" "typeGroup t = Core" "asset_payments t = Some ps"
    "senderPublicKey t = Some spk"
  assume a: "findByPublicKey s spk = Inr sender \<and> lookupRecipient s t = Inr recipient
        \<and> handler_revert (registry E t) t s = Done s1
        \<and> delegateKnown s1 sender \<and> recipientKnown s1 recipient
        \<and> list_all (\<lambda>p. item_recipientId p \<in> addresses s1
                          \<and> delegateKnown s1 (item_recipientId p)) ps"
  have run: "revertTransaction E t s = updateVoteBalances s1 sender recipient t None None True"
    using t a
    by (simp add: revertTransaction_def lookupLock_def andThen_def revertVoteBalances_def)
  from updateVoteBalances_payments [OF t(1,2,3), where revert = True and lw = None and lt = None] a
  obtain s' where r: "updateVoteBalances s1 sender recipient t None None True = Done s'" "onlyVoteBalances s1 s'"
    "\<forall>x. getVoteBalance s' x = getVoteBalance s1 x + signed True (paymentsBacking s1 ps x - (if backs s1 sender x then paymentsTotal ps + fee t else 0) + recipientShare s1 recipient t x)"
    by blast
  then show "\<exists>s'. revertTransaction E t s = Done s' \<and> onlyVoteBalances s1 s'
         \<and> (\<forall>x. getVoteBalance s' x
               = getVoteBalance s1 x
                 - (paymentsBacking s1 ps x
                    - (if backs s1 sender x then paymentsTotal ps + fee t else 0)
                    + recipientShare s1 recipient t x))"
    by (simp add: run signed_def del: ex_simps all_simps)
qed

theorem multi_payment_vote_balances_witness:
  "getVoteBalance (ledgerOf (applyTransaction exampleEnv exampleMultiPayment exampleLedger))
     ''Aeve'' = 340
   \<and> getVoteBalance (ledgerOf (applyTransaction exampleEnv exampleMultiPayment exampleLedger))
     ''Adora'' = 1100
   \<and> getVoteBalance (ledgerOf (revertTransaction exampleEnv exampleMultiPayment exampleLedger))
     ''Aeve'' = 660
   \<and> getVoteBalance (ledgerOf (revertTransaction exampleEnv exampleMultiPayment exampleLedger))
     ''Adora'' = 900"
proof -
  define ps where "ps = [\<lparr>item_recipientId = ''Adora'', item_amount = 100\<rparr>,
                         \<lparr>item_recipientId = ''Aalice'', item_amount = 50\<rparr>]"
  have h: "type exampleMultiPayment = MultiPayment" "typeGroup exampleMultiPayment = Core"
    "asset_payments exampleMultiPayment = Some ps"
    "senderPublicKey exampleMultiPayment = Some ''bob''"
    by (simp_all add: exampleMultiPayment_def ps_def)
  note c = multi_payment_vote_balances [OF h, of exampleEnv exampleLedger]
  have f: "fee exampleMultiPayment = 10" "paymentsTotal ps = 150"
    by (simp_all add: exampleMultiPayment_def ps_def paymentsTotal_def)
  have l: "findByPublicKey exampleLedger ''bob'' = Inr ''Abob''"
    "lookupRecipient exampleLedger exampleMultiPayment = Inr None"
    by (simp_all add: exampleMultiPayment_def lookupRecipient_def example_defs)
  have facts:
    "findByPublicKey (moveFunds k exampleMultiPayment ''Abob'' exampleLedger) ''bob'' = Inr ''Abob''"
    "lookupRecipient (moveFunds k exampleMultiPayment ''Abob'' exampleLedger) exampleMultiPayment
       = Inr None"
    "delegateKnown (moveFunds k exampleMultiPayment ''Abob'' exampleLedger) ''Abob''"
    "recipientKnown (moveFunds k exampleMultiPayment ''Abob'' exampleLedger) None"
    "list_all (\<lambda>p. item_recipientId p \<in> addresses (moveFunds k exampleMultiPayment ''Abob'' exampleLedger)
              \<and> delegateKnown (moveFunds k exampleMultiPayment ''Abob'' exampleLedger)
                  (item_recipientId p)) ps"
    "\<not> backs (moveFunds k exampleMultiPayment ''Abob'' exampleLedger) ''Abob'' ''Adora''"
    "backs (moveFunds k exampleMultiPayment ''Abob'' exampleLedger) ''Abob'' ''Aeve''"
    "paymentsBacking (moveFunds k exampleMultiPayment ''Abob'' exampleLedger) ps ''Adora'' = 100"
    "paymentsBacking (moveFunds k exampleMultiPayment ''Abob'' exampleLedger) ps ''Aeve'' = 0"
    "recipientShare (moveFunds k exampleMultiPayment ''Abob'' exampleLedger) None
       exampleMultiPayment x = 0"
    "getVoteBalance (moveFunds k exampleMultiPayment ''Abob'' exampleLedger) ''Adora'' = 1000"
    "getVoteBalance (moveFunds k exampleMultiPayment ''Abob'' exampleLedger) ''Aeve'' = 500"
    for k x
    by (simp_all add: exampleMultiPayment_def ps_def lookupRecipient_def getVoteBalance_def
        notion_defs example_defs)
  have ha: "handler_apply (registry exampleEnv exampleMultiPayment) exampleMultiPayment
              exampleLedger = Done (moveFunds 1 exampleMultiPayment ''Abob'' exampleLedger)"
    by (simp add: exampleMultiPayment_def exampleEnv_def exampleHandler_def exampleLedger_def
        exampleWallet_def)
  have hr: "handler_revert (registry exampleEnv exampleMultiPayment) exampleMultiPayment
              exampleLedger = Done (moveFunds (- 1) exampleMultiPayment ''Abob'' exampleLedger)"
    by (simp add: exampleMultiPayment_def exampleEnv_def exampleHandler_def exampleLedger_def
        exampleWallet_def)
  from c [THEN conjunct1, rule_format, of _ "''Abob''" None] ha facts
  obtain a where
    a: "applyTransaction exampleEnv exampleMultiPayment exampleLedger = Done a"
      "\<forall>x. getVoteBalance a x
         = getVoteBalance (moveFunds 1 exampleMultiPayment ''Abob'' exampleLedger) x
           + (paymentsBacking (moveFunds 1 exampleMultiPayment ''Abob'' exampleLedger) ps x
              - (if backs (moveFunds 1 exampleMultiPayment ''Abob'' exampleLedger) ''Abob'' x
                 then paymentsTotal ps + fee exampleMultiPayment else 0)
              + recipientShare (moveFunds 1 exampleMultiPayment ''Abob'' exampleLedger) None
                  exampleMultiPayment x)"
    by blast
  from c [THEN conjunct2, rule_format, of "''Abob''" None] l hr facts
  obtain r where
    r: "revertTransaction exampleEnv exampleMultiPayment exampleLedger = Done r"
      "\<forall>x. getVoteBalance r x
         = getVoteBalance (moveFunds (- 1) exampleMultiPayment ''Abob'' exampleLedger) x
           - (paymentsBacking (moveFunds (- 1) exampleMultiPayment ''Abob'' exampleLedger) ps x
              - (if backs (moveFunds (- 1) exampleMultiPayment ''Abob'' exampleLedger) ''Abob'' x
                 then paymentsTotal ps + fee exampleMultiPayment else 0)
              + recipientShare (moveFunds (- 1) exampleMultiPayment ''Abob'' exampleLedger) None
                  exampleMultiPayment x)"
    by blast
  show ?thesis
    by (simp add: a r ledgerOf_def facts f)
qed

section \<open>Unknown accounts\<close>



text \<open>
  Claim C9. For a transaction whose \<open>recipientId\<close> is not an address of the ledger
  (of the ledger the handler returned when applying, of the ledger before the handler
  when reverting), \<open>applyTransaction\<close> and \<open>revertTransaction\<close> call the
  vote-balance update with no recipient, and the update of the recipient's delegate then
  changes nothing. For a transaction that is neither a vote, a claim nor a multi-payment
  and whose sender's voted delegate is in the ledger, both therefore succeed, changing
  vote balances only: the wallet the sender backs is charged (or, on revert, refunded)
  the sender's share. A payment of a multi-payment whose recipient is not in the ledger
  makes the loop over the payments throw instead.
\<close>

theorem missing_recipient_is_skipped:
  "recipientId t = Some r \<Longrightarrow> senderPublicKey t = Some spk \<Longrightarrow>
   (\<forall>s1 sender lw lt.
      lookupLock s t = Inr (lw, lt) \<and> handler_apply (registry E t) t s = Done s1
        \<and> r \<notin> addresses s1 \<and> findByPublicKey s1 spk = Inr sender \<longrightarrow>
      applyTransaction E t s = updateVoteBalances s1 sender None t lw lt False) \<and>
   (\<forall>s1 sender lw lt.
      r \<notin> addresses s \<and> findByPublicKey s spk = Inr sender
        \<and> handler_revert (registry E t) t s = Done s1 \<and> lookupLock s1 t = Inr (lw, lt) \<longrightarrow>
      revertTransaction E t s = updateVoteBalances s1 sender None t lw lt True) \<and>
   (\<forall>s0 revert. updateRecipientDelegate s0 None t revert = Done s0) \<and>
   (\<not> (type t = Vote \<and> typeGroup t = Core) \<and> \<not> (type t = HtlcClaim \<and> typeGroup t = Core)
      \<and> \<not> (type t = MultiPayment \<and> typeGroup t = Core) \<longrightarrow>
      (\<forall>s1 sender.
         handler_apply (registry E t) t s = Done s1 \<and> r \<notin> addresses s1
           \<and> findByPublicKey s1 spk = Inr sender \<and> delegateKnown s1 sender \<longrightarrow>
         (\<exists>s'. applyTransaction E t s = Done s' \<and> onlyVoteBalances s1 s'
            \<and> (\<forall>x. getVoteBalance s' x
                  = getVoteBalance s1 x - (if backs s1 sender x then senderCharge t else 0)))) \<and>
      (\<forall>s1 sender.
         r \<notin> addresses s \<and> findByPublicKey s spk = Inr sender
           \<and> handler_revert (registry E t) t s = Done s1 \<and> delegateKnown s1 sender \<longrightarrow>
         (\<exists>s'. revertTransaction E t s = Done s' \<and> onlyVoteBalances s1 s'
            \<and> (\<forall>x. getVoteBalance s' x
                  = getVoteBalance s1 x + (if backs s1 sender x then senderCharge t else 0))))) \<and>
   (\<forall>p ps revert s0.
      item_recipientId p \<notin> addresses s0 \<longrightarrow>
      updatePaymentRecipients (p # ps) revert s0 = Threw AccountNotFound s0)"
proof -
  assume t: "recipientId t = Some r" "senderPublicKey t = Some spk"
  have ap: "applyTransaction E t s = updateVoteBalances s1 sender None t lw lt False"
    if "lookupLock s t = Inr (lw, lt)" "handler_apply (registry E t) t s = Done s1"
      "r \<notin> addresses s1" "findByPublicKey s1 spk = Inr sender" for s1 sender lw lt
    using t that
    by (simp add: applyTransaction_def andThen_def lookupRecipient_def hasByAddress_def
        applyVoteBalances_def)
  have rv: "revertTransaction E t s = updateVoteBalances s1 sender None t lw lt True"
    if "r \<notin> addresses s" "findByPublicKey s spk = Inr sender"
      "handler_revert (registry E t) t s = Done s1" "lookupLock s1 t = Inr (lw, lt)"
    for s1 sender lw lt
    using t that
    by (simp add: revertTransaction_def andThen_def lookupRecipient_def hasByAddress_def
        revertVoteBalances_def)
  have sk: "updateRecipientDelegate s0 None t revert = Done s0" for s0 revert
    by (simp add: updateRecipientDelegate_def)
  have mp: "updatePaymentRecipients (p # ps) revert s0 = Threw AccountNotFound s0"
    if "item_recipientId p \<notin> addresses s0" for p ps revert s0
    using that by (simp add: findByAddress_def)
  have ord: "(\<exists>s'. applyTransaction E t s = Done s' \<and> onlyVoteBalances s1 s'
            \<and> (\<forall>x. getVoteBalance s' x
                  = getVoteBalance s1 x - (if backs s1 sender x then senderCharge t else 0)))"
    if k: "\<not> (type t = Vote \<and> typeGroup t = Core)" "\<not> (type t = HtlcClaim \<and> typeGroup t = Core)"
      "\<not> (type t = MultiPayment \<and> typeGroup t = Core)"
      and a: "handler_apply (registry E t) t s = Done s1" "r \<notin> addresses s1"
      "findByPublicKey s1 spk = Inr sender" "delegateKnown s1 sender" for s1 sender
  proof -
    have l: "lookupLock s t = Inr (None, None)" using k(2) by (auto simp: lookupLock_def)
    from updateVoteBalances_no_recipient [OF k a(4), where revert = False and lw = None and lt = None]
    obtain s' where "updateVoteBalances s1 sender None t None None False = Done s'"
      "onlyVoteBalances s1 s'"
      "\<forall>x. getVoteBalance s' x
         = getVoteBalance s1 x + (if backs s1 sender x then signed False (- senderCharge t) else 0)"
      by blast
    then show ?thesis
      using ap [OF l a(1,2,3)] by (simp add: signed_def del: ex_simps all_simps)
  qed
  have ordr: "(\<exists>s'. revertTransaction E t s = Done s' \<and> onlyVoteBalances s1 s'
            \<and> (\<forall>x. getVoteBalance s' x
                  = getVoteBalance s1 x + (if backs s1 sender x then senderCharge t else 0)))"
    if k: "\<not> (type t = Vote \<and> typeGroup t = Core)" "\<not> (type t = HtlcClaim \<and> typeGroup t = Core)"
      "\<not> (type t = MultiPayment \<and> typeGroup t = Core)"
      and a: "r \<notin> addresses s" "findByPublicKey s spk = Inr sender"
      "handler_revert (registry E t) t s = Done s1" "delegateKnown s1 sender" for s1 sender
  proof -
    have l: "lookupLock s1 t = Inr (None, None)" using k(2) by (auto simp: lookupLock_def)
    from updateVoteBalances_no_recipient [OF k a(4), where revert = True and lw = None and lt = None]
    obtain s' where "updateVoteBalances s1 sender None t None None True = Done s'"
      "onlyVoteBalances s1 s'"
      "\<forall>x. getVoteBalance s' x
         = getVoteBalance s1 x + (if backs s1 sender x then signed True (- senderCharge t) else 0)"
      by blast
    then show ?thesis
      using rv [OF a(1,2,3) l] by (simp add: signed_def del: ex_simps all_simps)
  qed
  show ?thesis
    using ap rv sk mp ord ordr by blast
qed

theorem missing_recipient_is_skipped_witness:
  "recipientId exampleLostTransfer = Some ''Azed'' \<and> ''Azed'' \<notin> addresses exampleLedger
   \<and> thrown (applyTransaction exampleEnv exampleLostTransfer exampleLedger) = None
   \<and> getVoteBalance (ledgerOf (applyTransaction exampleEnv exampleLostTransfer exampleLedger))
        ''Aeve'' = 390
   \<and> thrown (revertTransaction exampleEnv exampleLostTransfer exampleLedger) = None
   \<and> getVoteBalance (ledgerOf (revertTransaction exampleEnv exampleLostTransfer exampleLedger))
        ''Aeve'' = 610
   \<and> updatePaymentRecipients [\<lparr>item_recipientId = ''Azed'', item_amount = 5\<rparr>] False
        exampleLedger = Threw AccountNotFound exampleLedger"
proof -
  have h: "recipientId exampleLostTransfer = Some ''Azed''"
    "senderPublicKey exampleLostTransfer = Some ''bob''"
    by (simp_all add: exampleLostTransfer_def exampleTransfer_def)
  have k: "\<not> (type exampleLostTransfer = Vote \<and> typeGroup exampleLostTransfer = Core)
      \<and> \<not> (type exampleLostTransfer = HtlcClaim \<and> typeGroup exampleLostTransfer = Core)
      \<and> \<not> (type exampleLostTransfer = MultiPayment \<and> typeGroup exampleLostTransfer = Core)"
    "senderCharge exampleLostTransfer = 110"
    by (simp_all add: exampleLostTransfer_def exampleTransfer_def senderCharge_def)
  have z: "''Azed'' \<notin> addresses exampleLedger"
    "item_recipientId \<lparr>item_recipientId = ''Azed'', item_amount = 5\<rparr> \<notin> addresses exampleLedger"
    "findByPublicKey exampleLedger ''bob'' = Inr ''Abob''"
    by (simp_all add: example_defs)
  have facts:
    "''Azed'' \<notin> addresses (moveFunds k exampleLostTransfer ''Abob'' exampleLedger)"
    "findByPublicKey (moveFunds k exampleLostTransfer ''Abob'' exampleLedger) ''bob'' = Inr ''Abob''"
    "delegateKnown (moveFunds k exampleLostTransfer ''Abob'' exampleLedger) ''Abob''"
    "backs (moveFunds k exampleLostTransfer ''Abob'' exampleLedger) ''Abob'' ''Aeve''"
    "getVoteBalance (moveFunds k exampleLostTransfer ''Abob'' exampleLedger) ''Aeve'' = 500" for k
    by (simp_all add: exampleLostTransfer_def getVoteBalance_def notion_defs example_defs)
  have ha: "handler_apply (registry exampleEnv exampleLostTransfer) exampleLostTransfer
              exampleLedger = Done (moveFunds 1 exampleLostTransfer ''Abob'' exampleLedger)"
    by (simp add: exampleLostTransfer_def exampleTransfer_def exampleEnv_def exampleHandler_def
        exampleLedger_def exampleWallet_def)
  have hr: "handler_revert (registry exampleEnv exampleLostTransfer) exampleLostTransfer
              exampleLedger = Done (moveFunds (- 1) exampleLostTransfer ''Abob'' exampleLedger)"
    by (simp add: exampleLostTransfer_def exampleTransfer_def exampleEnv_def exampleHandler_def
        exampleLedger_def exampleWallet_def)
  note c = missing_recipient_is_skipped [OF h, of exampleLedger exampleEnv]
  from c [THEN conjunct2, THEN conjunct2, THEN conjunct2, THEN conjunct1, rule_format, OF k(1),
      THEN conjunct1, rule_format, of _ "''Abob''"] ha facts
  obtain a where a: "applyTransaction exampleEnv exampleLostTransfer exampleLedger = Done a"
    "\<forall>x. getVoteBalance a x
       = getVoteBalance (moveFunds 1 exampleLostTransfer ''Abob'' exampleLedger) x
         - (if backs (moveFunds 1 exampleLostTransfer ''Abob'' exampleLedger) ''Abob'' x
            then senderCharge exampleLostTransfer else 0)"
    by blast
  from c [THEN conjunct2, THEN conjunct2, THEN conjunct2, THEN conjunct1, rule_format, OF k(1),
      THEN conjunct2, rule_format, of "''Abob''"] z hr facts
  obtain b where b: "revertTransaction exampleEnv exampleLostTransfer exampleLedger = Done b"
    "\<forall>x. getVoteBalance b x
       = getVoteBalance (moveFunds (- 1) exampleLostTransfer ''Abob'' exampleLedger) x
         + (if backs (moveFunds (- 1) exampleLostTransfer ''Abob'' exampleLedger) ''Abob'' x
            then senderCharge exampleLostTransfer else 0)"
    by blast
  have m: "updatePaymentRecipients [\<lparr>item_recipientId = ''Azed'', item_amount = 5\<rparr>] False
        exampleLedger = Threw AccountNotFound exampleLedger"
    using c [THEN conjunct2, THEN conjunct2, THEN conjunct2, THEN conjunct2, rule_format, OF z(2)]
    by simp
  show ?thesis
    using h(1) z(1) m by (simp add: a b thrown_def ledgerOf_def facts k)
qed

section \<open>Rollback of a failed block\<close>




section \<open>Rollback of a failed revert\<close>




section \<open>Applying and reverting a block\<close>




end
